theory Spec2Isabelle
  imports Main "HOL-Library.Word" "HOL-Library.Sublist"
begin

section \<open>Strings of the program\<close>

text \<open>
  \<open>std::wstring\<close>, \<open>std::wstring_view\<close> and \<open>winrt::hstring\<close> are counted sequences of
  16-bit code units (they may hold the code unit 0 inside); \<open>std::string\<close> is a sequence
  of bytes, for which HOL's \<open>string\<close> is used; \<open>std::vector<byte>\<close> is a list of 8-bit
  words.
\<close>

type_synonym wchar = "16 word"
type_synonym wstring = "wchar list"
type_synonym byte = "8 word"

text \<open>A wide literal \<open>L"..."\<close> of ASCII characters.\<close>

definition L :: "string \<Rightarrow> wstring" where
  "L str = map (\<lambda>c. of_nat (of_char c)) str"

text \<open>
  \<open>h.c_str()\<close> handed to a \<open>std::wstring\<close> (construction or assignment from a
  \<open>const wchar_t*\<close>): the characters up to the first code unit 0.
\<close>

definition c_str :: "wstring \<Rightarrow> wstring" where
  "c_str h = takeWhile (\<lambda>c. c \<noteq> 0) h"

text \<open>
  \<open>std::wstring_view::find(pat)\<close>: the position of the first occurrence of \<open>pat\<close>, or
  \<open>npos\<close> (here \<open>None\<close>).
\<close>

fun find_from :: "'a list \<Rightarrow> 'a list \<Rightarrow> nat \<Rightarrow> nat option" where
  "find_from pat [] i = (if pat = [] then Some i else None)"
| "find_from pat (x # xs) i =
     (if prefix pat (x # xs) then Some i else find_from pat xs (Suc i))"

definition find :: "'a list \<Rightarrow> 'a list \<Rightarrow> nat option" where
  "find view pat = find_from pat view 0"

abbreviation npos :: "nat option" where
  "npos \<equiv> None"

text \<open>\<open>std::to_wstring\<close> and \<open>std::to_string\<close> of an integer: its decimal digits.\<close>

fun digits :: "nat \<Rightarrow> string" where
  "digits n =
     (if n < 10 then [''0123456789'' ! n]
      else digits (n div 10) @ [''0123456789'' ! (n mod 10)])"

declare digits.simps [simp del]

definition to_string :: "int \<Rightarrow> string" where
  "to_string i = (if i < 0 then CHR ''-'' # digits (nat (- i)) else digits (nat i))"

definition to_wstring :: "int \<Rightarrow> wstring" where
  "to_wstring i = L (to_string i)"

section \<open>Data model\<close>

text \<open>\<open>struct trackInfo\<close>; \<open>trackInfo{}\<close> has four empty strings.\<close>

record trackInfo =
  title :: wstring
  artist :: wstring
  album :: wstring
  coverArtUrl :: wstring

definition empty_trackInfo :: trackInfo where
  "empty_trackInfo = \<lparr>title = [], artist = [], album = [], coverArtUrl = []\<rparr>"

text \<open>\<open>winrt::hresult_error\<close>, the OS-level error of a WinRT call.\<close>

record hresult_error =
  code :: "32 word"
  message :: wstring

text \<open>
  The WinRT objects the pipeline reads. Each is the record of what its methods return
  during the run; a method that can fail returns \<open>Inl\<close> of the error it throws.
\<close>

record RandomAccessStream =
  Size :: "64 word"

record RandomAccessStreamReference =
  OpenReadAsync :: "hresult_error + RandomAccessStream option"

record MediaProperties =
  Title :: wstring
  Artist :: wstring
  AlbumTitle :: wstring
  Thumbnail :: "RandomAccessStreamReference option"

record Session =
  SourceAppUserModelId :: "hresult_error + wstring"
  TryGetMediaPropertiesAsync :: "hresult_error + MediaProperties"

text \<open>The activity handed to the Discord client by \<open>updatePresence\<close>.\<close>

datatype ActivityTypes = Playing | Streaming | Listening | Watching

record ActivityAssets =
  LargeImage :: "string option"
  LargeText :: "string option"
  SmallImage :: "string option"
  SmallText :: "string option"
  SmallUrl :: "string option"

record Activity =
  Type :: ActivityTypes
  Name :: string
  Details :: "string option"
  State :: "string option"
  Assets :: "ActivityAssets option"

text \<open>The lines written to \<open>std::cout\<close> and \<open>std::cerr\<close>, one constructor for each.\<close>

datatype message =
    Already_processing
  | Duplicate_event string
  | Found_cover_art string
  | Upload_successful string
  | Failed_to_upload string
  | Zero_size_vector
  | Zero_length_buffer
  | Zero_bytes_loaded string
  | MemoryStream_size_0 string
  | No_cover_art string
  | No_TIDAL_session
  | Failed_to_parse string
  | No_media_session

text \<open>
  What a run does to the outside, in order: console lines, calls of the Discord client,
  the WinRT operations it awaits, and calls of \<open>UploadCoverArtAsync\<close> with their
  argument and result.
\<close>

datatype async_call =
    Call_TryGetMediaPropertiesAsync
  | Call_OpenReadAsync
  | Call_CopyAsync
  | Call_LoadAsync

datatype event =
    Cout message
  | Cerr message
  | ClearRichPresence
  | UpdateRichPresence Activity
  | Co_await async_call
  | Upload "byte list" wstring

text \<open>
  The operating system as one run meets it: the results of the Win32 and WinRT calls
  that are not methods of the session objects. \<open>system_clock_now k\<close> is the
  \<open>k\<close>-th reading of the clock inside \<open>UploadCoverArtAsync\<close>, a signed 64-bit count of
  ticks of 100 ns.
  \<open>CreateProcessW\<close> gets the command line and returns the error code of
  \<open>GetLastError\<close>, or the successive results of \<open>ReadFile\<close> on the child's output.
\<close>

record OS =
  WideCharToMultiByte :: "wstring \<Rightarrow> string"
  MultiByteToWideChar :: "string \<Rightarrow> wstring"
  CopyAsync :: "RandomAccessStream \<Rightarrow> hresult_error + 64 word"
  LoadAsync :: "32 word \<Rightarrow> hresult_error + 32 word"
  ReadBuffer :: "32 word \<Rightarrow> hresult_error + byte list"
  GetTempPathW :: "wstring option"
  system_clock_now :: "nat \<Rightarrow> 64 word"
  ofstream_is_open :: bool
  CreatePipe :: bool
  SetHandleInformation :: bool
  CreateProcessW :: "wstring \<Rightarrow> 32 word + string list"

text \<open>
  The state of the process and of what it acts on: the globals of the program, the
  presence the Discord client was last asked to show, the files that exist, and the
  events so far.
\<close>

record app_state =
  g_currentSession :: "Session option"
  g_lastTrackProcessed :: trackInfo
  g_isParsing :: bool
  presence :: "Activity option"
  files :: "wstring \<rightharpoonup> byte list"
  trace :: "event list"

section \<open>Helpers of the program\<close>

text \<open>
  \<open>ws2s\<close>: an empty wide string gives an empty string, any other is converted by
  \<open>WideCharToMultiByte\<close>.
\<close>

definition ws2s :: "OS \<Rightarrow> wstring \<Rightarrow> string" where
  "ws2s os wstr = (if wstr = [] then [] else WideCharToMultiByte os wstr)"

text \<open>\<open>BufferToVector\<close>: a vector of \<open>buffer.Length()\<close> bytes, read from the buffer.\<close>

definition BufferToVector :: "byte list \<Rightarrow> byte list" where
  "BufferToVector buffer = take (length buffer) buffer"

definition cout :: "message \<Rightarrow> app_state \<Rightarrow> app_state" where
  "cout m s = s\<lparr>trace := trace s @ [Cout m]\<rparr>"

definition cerr :: "message \<Rightarrow> app_state \<Rightarrow> app_state" where
  "cerr m s = s\<lparr>trace := trace s @ [Cerr m]\<rparr>"

definition co_await :: "async_call \<Rightarrow> app_state \<Rightarrow> app_state" where
  "co_await c s = s\<lparr>trace := trace s @ [Co_await c]\<rparr>"

definition RELEASE_VER :: string where
  "RELEASE_VER = ''v0.2''"

text \<open>\<open>clearPresence\<close>: one call of \<open>client->ClearRichPresence()\<close>.\<close>

definition clearPresence :: "app_state \<Rightarrow> app_state" where
  "clearPresence s = s\<lparr>presence := None, trace := trace s @ [ClearRichPresence]\<rparr>"

text \<open>
  \<open>updatePresence\<close>: builds the activity and hands it to
  \<open>client->UpdateRichPresence\<close>. The large image is set only for a non-empty
  \<open>coverArtUrl\<close>.
\<close>

definition make_assets :: "OS \<Rightarrow> trackInfo \<Rightarrow> ActivityAssets" where
  "make_assets os track =
     (let assets = \<lparr>LargeImage = None, LargeText = None, SmallImage = None,
                     SmallText = None, SmallUrl = None\<rparr>;
          assets = (if coverArtUrl track \<noteq> []
                    then assets\<lparr>LargeImage := Some (ws2s os (coverArtUrl track)),
                                LargeText := Some ''Playing on TIDAL''\<rparr>
                    else assets)
      in assets\<lparr>SmallImage := Some ''tidal-icon'',
                SmallText := Some (''tidal-rpc '' @ RELEASE_VER @ '' by @emiferpro''),
                SmallUrl := Some ''https://github.com/Emiferpro/tidal-rpc''\<rparr>)"

definition make_activity :: "OS \<Rightarrow> trackInfo \<Rightarrow> Activity" where
  "make_activity os track =
     \<lparr>Type = Listening,
      Name = ws2s os (artist track),
      Details = Some (ws2s os (title track)),
      State = Some (ws2s os (artist track)),
      Assets = Some (make_assets os track)\<rparr>"

definition updatePresence :: "OS \<Rightarrow> trackInfo \<Rightarrow> app_state \<Rightarrow> app_state" where
  "updatePresence os track s =
     (let activity = make_activity os track
      in s\<lparr>presence := Some activity, trace := trace s @ [UpdateRichPresence activity]\<rparr>)"

section \<open>The artwork publisher\<close>

definition DeleteFileW ::
  "wstring \<Rightarrow> (wstring \<rightharpoonup> byte list) \<Rightarrow> (wstring \<rightharpoonup> byte list)" where
  "DeleteFileW path fs = fs(path := None)"

text \<open>The name of the scratch file, from the temp path and the first clock reading.\<close>

definition tempFilePath_of :: "OS \<Rightarrow> wstring \<Rightarrow> wstring" where
  "tempFilePath_of os tempPath =
     c_str tempPath @ L (CHR 0x5C # ''TIDALRPC_'') @ to_wstring (sint (system_clock_now os 0))
       @ L ''.png''"

text \<open>
  \<open>duration_cast<milliseconds>\<close> of a number of 100 ns ticks: division by 10000
  that rounds towards zero. In \<open>command_of\<close> the seven minutes are added to the tick
  count in 64 bits, where the sum wraps around, and the result is read as a signed number.
\<close>

definition to_milliseconds :: "int \<Rightarrow> int" where
  "to_milliseconds ticks =
     (if ticks < 0 then - ((- ticks) div 10000) else ticks div 10000)"

definition command_of :: "OS \<Rightarrow> wstring \<Rightarrow> wstring" where
  "command_of os tempFilePath =
     (let expires_time = system_clock_now os 1 + 7 * 60 * 10000000;
          expires_ms = to_milliseconds (sint expires_time)
      in L (''curl.exe -s -F '' @ [CHR 0x22] @ ''file=@'') @ tempFilePath
           @ L ([CHR 0x22] @ '' -F '' @ [CHR 0x22] @ ''expires='') @ to_wstring expires_ms
           @ L ([CHR 0x22] @ '' http://0x0.st''))"

text \<open>
  The loop \<open>while (ReadFile(...) && dwRead != 0) output.append(chBuf, dwRead)\<close> over
  the successive results of \<open>ReadFile\<close>; when none is left the pipe is broken and
  \<open>ReadFile\<close> fails.
\<close>

fun ReadFile_loop :: "string list \<Rightarrow> string \<Rightarrow> string" where
  "ReadFile_loop [] output = output"
| "ReadFile_loop (chBuf # rest) output =
     (if chBuf \<noteq> [] then ReadFile_loop rest (output @ chBuf) else output)"

text \<open>
  The two calls of \<open>MultiByteToWideChar\<close> on \<open>output\<close>: with no byte to convert the
  call returns 0 and the wide string is empty.
\<close>

definition to_wide :: "OS \<Rightarrow> string \<Rightarrow> wstring" where
  "to_wide os output = (if output = [] then [] else MultiByteToWideChar os output)"

text \<open>One \<open>pop_back\<close> of a trailing line feed or carriage return.\<close>

definition pop_newline :: "wstring \<Rightarrow> wstring" where
  "pop_newline wstr =
     (if wstr \<noteq> [] \<and> (last wstr = 0x0A \<or> last wstr = 0x0D) then butlast wstr else wstr)"

text \<open>
  \<open>UploadCoverArtAsync\<close>, on the files that exist: the result string and the files
  that exist afterwards. \<open>DeleteFileW\<close> is taken to succeed: when it is called the
  stream that wrote the file is closed, and the child has exited or never started.
\<close>

definition UploadCoverArtAsync ::
  "OS \<Rightarrow> byte list \<Rightarrow> (wstring \<rightharpoonup> byte list) \<Rightarrow> wstring \<times> (wstring \<rightharpoonup> byte list)" where
  "UploadCoverArtAsync os binaryData fs =
     (case GetTempPathW os of
        None \<Rightarrow> (L ''Error: Could not get temp path'', fs)
      | Some tempPath \<Rightarrow>
          let tempFilePath = tempFilePath_of os tempPath in
          if \<not> ofstream_is_open os
          then (L ''Error: Could not open temp file for writing'', fs)
          else
            let fs = fs(tempFilePath \<mapsto> binaryData) in
            if \<not> CreatePipe os
            then (L ''Error: Could not create stdout pipe'', DeleteFileW tempFilePath fs)
            else if \<not> SetHandleInformation os
            then (L ''Error: Could not set handle information for pipe'',
                  DeleteFileW tempFilePath fs)
            else
              let command = command_of os tempFilePath;
                  output =
                    (case CreateProcessW os command of
                       Inr reads \<Rightarrow> ReadFile_loop reads []
                     | Inl last_error \<Rightarrow>
                         ''Error: CreateProcess failed with code ''
                           @ to_string (uint last_error));
                  fs = DeleteFileW tempFilePath fs;
                  wstr = to_wide os output;
                  wstr = pop_newline wstr;
                  wstr = pop_newline wstr
              in (wstr, fs))"

section \<open>The pipeline\<close>

text \<open>
  The calls made between two awaited operations (\<open>Seek\<close>,
  \<open>GetInputStreamAt\<close>, the \<open>DataReader\<close>) are taken together with the awaited
  operation that follows them. The field \<open>presence\<close> is what the Discord client was last
  asked to show; whether the service accepts the request is reported later, to a callback
  outside the run.
\<close>

text \<open>
  \<open>ParsingGuard\<close>: the constructor sets the flag, the destructor clears it.
\<close>

definition ParsingGuard_ctor :: "app_state \<Rightarrow> app_state" where
  "ParsingGuard_ctor s = s\<lparr>g_isParsing := True\<rparr>"

definition ParsingGuard_dtor :: "app_state \<Rightarrow> app_state" where
  "ParsingGuard_dtor s = s\<lparr>g_isParsing := False\<rparr>"

text \<open>
  The upload and the reading of its result, for bytes \<open>stableData\<close> (the branch of
  \<open>if (stableData.size() > 0)\<close> and its \<open>else\<close>). Returns the local \<open>track\<close>.
\<close>

definition upload_step ::
  "OS \<Rightarrow> byte list \<Rightarrow> trackInfo \<Rightarrow> app_state \<Rightarrow> trackInfo \<times> app_state" where
  "upload_step os stableData track s =
     (if length stableData > 0 then
        let s = cout (Found_cover_art (ws2s os (title track))) s;
            (uploadedUrl, fs) = UploadCoverArtAsync os stableData (files s);
            s = s\<lparr>files := fs, trace := trace s @ [Upload stableData uploadedUrl]\<rparr>
        in if uploadedUrl \<noteq> [] then
             if find uploadedUrl (L ''Error:'') = npos
                \<and> find uploadedUrl (L ''Exception:'') = npos
             then
               let track = track\<lparr>coverArtUrl := c_str uploadedUrl\<rparr>
               in (track, cout (Upload_successful (ws2s os (coverArtUrl track))) s)
             else (track, cerr (Failed_to_upload (ws2s os (c_str uploadedUrl))) s)
           else (track, s)
      else (track, cerr Zero_size_vector s))"

text \<open>The local \<open>track\<close> built from the fetched properties.\<close>

definition fetched_track :: "MediaProperties \<Rightarrow> trackInfo" where
  "fetched_track mediaProperties =
     \<lparr>title = c_str (Title mediaProperties),
      artist = c_str (Artist mediaProperties),
      album = c_str (AlbumTitle mediaProperties),
      coverArtUrl = []\<rparr>"

subsection \<open>The coroutine\<close>

text \<open>
  \<open>parseTrack\<close> is a coroutine: at \<open>co_await\<close> of \<open>TryGetMediaPropertiesAsync\<close>,
  \<open>OpenReadAsync\<close>, \<open>CopyAsync\<close> and \<open>LoadAsync\<close> it is suspended, other code runs on
  the state, and it is resumed with the result of the operation. A \<open>frame\<close> is what the
  suspended coroutine keeps: where it waits and the locals it still needs. (The call of
  \<open>UploadCoverArtAsync\<close> has no \<open>co_await\<close> inside and runs to its end when called.)
\<close>

datatype frame =
    At_TryGetMediaPropertiesAsync bool Session
  | At_OpenReadAsync trackInfo RandomAccessStreamReference
  | At_CopyAsync trackInfo RandomAccessStream
  | At_LoadAsync trackInfo "64 word"

datatype progress =
    Suspended frame
  | Returned "hresult_error + unit"

text \<open>
  The two ways out of the \<open>try\<close> block that are shared by all resumptions: the handler
  of \<open>catch (winrt::hresult_error const& ex)\<close>, and the report of the track
  (\<open>updatePresence(track); g_lastTrackProcessed = track;\<close>). Both are followed by
  \<open>co_return\<close>, where the \<open>ParsingGuard\<close> is destroyed.
\<close>

definition caught :: "OS \<Rightarrow> hresult_error \<Rightarrow> app_state \<Rightarrow> progress \<times> app_state" where
  "caught os ex s =
     (let s = cerr (Failed_to_parse (ws2s os (c_str (message ex)))) s;
          s = s\<lparr>g_lastTrackProcessed := empty_trackInfo\<rparr>
      in (Returned (Inr ()), ParsingGuard_dtor s))"

definition reported :: "OS \<Rightarrow> trackInfo \<Rightarrow> app_state \<Rightarrow> progress \<times> app_state" where
  "reported os track s =
     (let s = updatePresence os track s;
          s = s\<lparr>g_lastTrackProcessed := track\<rparr>
      in (Returned (Inr ()), ParsingGuard_dtor s))"

text \<open>
  From the call to the first suspension or to the return: the entry guard, the
  \<open>ParsingGuard\<close>, the session and its application id, and the start of the fetch.
\<close>

definition start :: "OS \<Rightarrow> bool \<Rightarrow> app_state \<Rightarrow> progress \<times> app_state" where
  "start os force s =
     (if \<not> force \<and> g_isParsing s then (Returned (Inr ()), cout Already_processing s)
      else
        let s = ParsingGuard_ctor s in
        (case g_currentSession s of
           Some session \<Rightarrow>
             (case SourceAppUserModelId session of
                Inl ex \<Rightarrow> caught os ex s
              | Inr appId \<Rightarrow>
                  if find appId (L ''TIDAL'') \<noteq> npos
                  then (Suspended (At_TryGetMediaPropertiesAsync force session),
                        co_await Call_TryGetMediaPropertiesAsync s)
                  else
                    let s = cout No_TIDAL_session s;
                        s = clearPresence s;
                        s = s\<lparr>g_lastTrackProcessed := empty_trackInfo\<rparr>
                    in (Returned (Inr ()), ParsingGuard_dtor s))
         | None \<Rightarrow>
             let s = cout No_media_session s;
                 s = clearPresence s;
                 s = s\<lparr>g_lastTrackProcessed := empty_trackInfo\<rparr>
             in (Returned (Inr ()), ParsingGuard_dtor s)))"

text \<open>
  From a resumption to the next suspension or to the return, on the state as it is when
  the coroutine is resumed.
\<close>

definition resume :: "OS \<Rightarrow> frame \<Rightarrow> app_state \<Rightarrow> progress \<times> app_state" where
  "resume os fr s =
     (case fr of
        At_TryGetMediaPropertiesAsync force session \<Rightarrow>
          (case TryGetMediaPropertiesAsync session of
             Inl ex \<Rightarrow> caught os ex s
           | Inr mediaProperties \<Rightarrow>
               let track = fetched_track mediaProperties in
               if \<not> force \<and> title track = title (g_lastTrackProcessed s)
                  \<and> artist track = artist (g_lastTrackProcessed s)
               then (Returned (Inr ()),
                     ParsingGuard_dtor (cout (Duplicate_event (ws2s os (title track))) s))
               else
                 (case Thumbnail mediaProperties of
                    Some thumbnail \<Rightarrow>
                      (Suspended (At_OpenReadAsync track thumbnail),
                       co_await Call_OpenReadAsync s)
                  | None \<Rightarrow>
                      reported os track (cout (No_cover_art (ws2s os (title track))) s)))
      | At_OpenReadAsync track thumbnail \<Rightarrow>
          (case OpenReadAsync thumbnail of
             Inl ex \<Rightarrow> caught os ex s
           | Inr None \<Rightarrow> reported os track s
           | Inr (Some stream) \<Rightarrow>
               if Size stream > 0
               then (Suspended (At_CopyAsync track stream), co_await Call_CopyAsync s)
               else reported os track s)
      | At_CopyAsync track stream \<Rightarrow>
          (case CopyAsync os stream of
             Inl ex \<Rightarrow> caught os ex s
           | Inr memoryStream_Size \<Rightarrow>
               if memoryStream_Size > 0
               then (Suspended (At_LoadAsync track memoryStream_Size),
                     co_await Call_LoadAsync s)
               else reported os track
                      (cout (MemoryStream_size_0 (ws2s os (title track))) s))
      | At_LoadAsync track memoryStream_Size \<Rightarrow>
          (case LoadAsync os (ucast memoryStream_Size) of
             Inl ex \<Rightarrow> caught os ex s
           | Inr numBytesLoaded \<Rightarrow>
               if numBytesLoaded > 0 then
                 (case ReadBuffer os numBytesLoaded of
                    Inl ex \<Rightarrow> caught os ex s
                  | Inr buffer \<Rightarrow>
                      if length buffer > 0 then
                        (case upload_step os (BufferToVector buffer) track s of
                           (track, s) \<Rightarrow> reported os track s)
                      else reported os track (cerr Zero_length_buffer s))
               else reported os track
                      (cout (Zero_bytes_loaded (ws2s os (title track))) s)))"

text \<open>How many suspensions can still follow.\<close>

fun rank :: "progress \<Rightarrow> nat" where
  "rank (Returned r) = 0"
| "rank (Suspended (At_LoadAsync track memoryStream_Size)) = 1"
| "rank (Suspended (At_CopyAsync track stream)) = 2"
| "rank (Suspended (At_OpenReadAsync track thumbnail)) = 3"
| "rank (Suspended (At_TryGetMediaPropertiesAsync force session)) = 4"

text \<open>
  A run taken alone: each awaited operation completes and the coroutine is resumed
  before any other code touches the state. \<open>run_to_return\<close> gives the result and the
  state at the return, \<open>suspension_states\<close> the states in which the run was suspended.
\<close>

function run_to_return ::
  "OS \<Rightarrow> progress \<Rightarrow> app_state \<Rightarrow> (hresult_error + unit) \<times> app_state" where
  "run_to_return os (Returned r) s = (r, s)"
| "run_to_return os (Suspended fr) s =
     (case resume os fr s of (p, s') \<Rightarrow> run_to_return os p s')"
  by pat_completeness auto
termination
proof (relation "measure (\<lambda>(os, p, s). rank p)")
  fix os fr s p s'
  assume "(p, s') = resume os fr s"
  then show "((os, p, s'), (os, Suspended fr, s)) \<in> measure (\<lambda>(os, p, s). rank p)"
    by (cases fr)
       (auto simp: resume_def caught_def reported_def Let_def
          split: sum.splits option.splits if_splits prod.splits)
qed simp

function suspension_states :: "OS \<Rightarrow> progress \<Rightarrow> app_state \<Rightarrow> app_state list" where
  "suspension_states os (Returned r) s = []"
| "suspension_states os (Suspended fr) s =
     s # (case resume os fr s of (p, s') \<Rightarrow> suspension_states os p s')"
  by pat_completeness auto
termination
proof (relation "measure (\<lambda>(os, p, s). rank p)")
  fix os fr s p s'
  assume "(p, s') = resume os fr s"
  then show "((os, p, s'), (os, Suspended fr, s)) \<in> measure (\<lambda>(os, p, s). rank p)"
    by (cases fr)
       (auto simp: resume_def caught_def reported_def Let_def
          split: sum.splits option.splits if_splits prod.splits)
qed simp

text \<open>\<open>parseTrack\<close>, run alone from its call to its return.\<close>

definition parseTrack :: "OS \<Rightarrow> bool \<Rightarrow> app_state \<Rightarrow> (hresult_error + unit) \<times> app_state" where
  "parseTrack os force s = (case start os force s of (p, s') \<Rightarrow> run_to_return os p s')"

subsection \<open>The body read at once\<close>

text \<open>
  The same statements read from top to bottom with no suspension, as they execute in a
  run taken alone: the thumbnail step, the \<open>try\<close> block and the
  \<open>if (g_currentSession)\<close> statement. \<open>parseTrack_at_once\<close> below shows that \<open>parseTrack\<close>
  is the entry guard followed by this body between the constructor and the destructor of
  the \<open>ParsingGuard\<close>.
\<close>

text \<open>
  The thumbnail step, from \<open>mediaProperties.Thumbnail()\<close> to the end of its
  \<open>if\<close>/\<open>else\<close>. A WinRT call that throws ends the step with \<open>Inl\<close>.
\<close>

definition thumbnail_step ::
  "OS \<Rightarrow> MediaProperties \<Rightarrow> trackInfo \<Rightarrow> app_state
     \<Rightarrow> (hresult_error + trackInfo) \<times> app_state" where
  "thumbnail_step os mediaProperties track s =
     (case Thumbnail mediaProperties of
        Some thumbnail \<Rightarrow>
          let s = co_await Call_OpenReadAsync s in
          (case OpenReadAsync thumbnail of
             Inl ex \<Rightarrow> (Inl ex, s)
           | Inr None \<Rightarrow> (Inr track, s)
           | Inr (Some stream) \<Rightarrow>
               if Size stream > 0 then
                 let s = co_await Call_CopyAsync s in
                 (case CopyAsync os stream of
                    Inl ex \<Rightarrow> (Inl ex, s)
                  | Inr memoryStream_Size \<Rightarrow>
                      if memoryStream_Size > 0 then
                        let s = co_await Call_LoadAsync s in
                        (case LoadAsync os (ucast memoryStream_Size) of
                           Inl ex \<Rightarrow> (Inl ex, s)
                         | Inr numBytesLoaded \<Rightarrow>
                             if numBytesLoaded > 0 then
                               (case ReadBuffer os numBytesLoaded of
                                  Inl ex \<Rightarrow> (Inl ex, s)
                                | Inr buffer \<Rightarrow>
                                    if length buffer > 0 then
                                      (case upload_step os (BufferToVector buffer) track s of
                                         (track, s) \<Rightarrow> (Inr track, s))
                                    else (Inr track, cerr Zero_length_buffer s))
                             else
                               (Inr track,
                                cout (Zero_bytes_loaded (ws2s os (title track))) s))
                      else
                        (Inr track, cout (MemoryStream_size_0 (ws2s os (title track))) s))
               else (Inr track, s))
      | None \<Rightarrow> (Inr track, cout (No_cover_art (ws2s os (title track))) s))"

text \<open>
  The body of the \<open>try\<close> block. \<open>Inl ex\<close>: the exception \<open>ex\<close> leaves the block;
  \<open>Inr ()\<close>: the block ends or the function returns from inside it.
\<close>

definition try_block ::
  "OS \<Rightarrow> bool \<Rightarrow> Session \<Rightarrow> app_state \<Rightarrow> (hresult_error + unit) \<times> app_state" where
  "try_block os force session s =
     (case SourceAppUserModelId session of
        Inl ex \<Rightarrow> (Inl ex, s)
      | Inr appId \<Rightarrow>
          if find appId (L ''TIDAL'') \<noteq> npos then
            let s = co_await Call_TryGetMediaPropertiesAsync s in
            (case TryGetMediaPropertiesAsync session of
               Inl ex \<Rightarrow> (Inl ex, s)
             | Inr mediaProperties \<Rightarrow>
                 let track = fetched_track mediaProperties in
                 if \<not> force \<and> title track = title (g_lastTrackProcessed s)
                    \<and> artist track = artist (g_lastTrackProcessed s)
                 then (Inr (), cout (Duplicate_event (ws2s os (title track))) s)
                 else
                   (case thumbnail_step os mediaProperties track s of
                      (Inl ex, s) \<Rightarrow> (Inl ex, s)
                    | (Inr track, s) \<Rightarrow>
                        let s = updatePresence os track s
                        in (Inr (), s\<lparr>g_lastTrackProcessed := track\<rparr>)))
          else
            let s = cout No_TIDAL_session s;
                s = clearPresence s
            in (Inr (), s\<lparr>g_lastTrackProcessed := empty_trackInfo\<rparr>))"

text \<open>
  The statement \<open>if (g_currentSession) { try ... catch ... } else { ... }\<close>. The
  handler catches every \<open>hresult_error\<close>, so the result is always \<open>Inr ()\<close>.
\<close>

definition parseTrack_body ::
  "OS \<Rightarrow> bool \<Rightarrow> app_state \<Rightarrow> (hresult_error + unit) \<times> app_state" where
  "parseTrack_body os force s =
     (case g_currentSession s of
        Some session \<Rightarrow>
          (case try_block os force session s of
             (Inl ex, s) \<Rightarrow>
               let s = cerr (Failed_to_parse (ws2s os (c_str (message ex)))) s
               in (Inr (), s\<lparr>g_lastTrackProcessed := empty_trackInfo\<rparr>)
           | (Inr u, s) \<Rightarrow> (Inr u, s))
      | None \<Rightarrow>
          let s = cout No_media_session s;
              s = clearPresence s
          in (Inr (), s\<lparr>g_lastTrackProcessed := empty_trackInfo\<rparr>))"

text \<open>The events a run added to the trace, from the state before and the state after.\<close>

definition events_of :: "app_state \<Rightarrow> app_state \<Rightarrow> event list" where
  "events_of s s' = drop (length (trace s)) (trace s')"

text \<open>The presence updates and the uploads among some events.\<close>

fun updates_in :: "event list \<Rightarrow> Activity list" where
  "updates_in [] = []"
| "updates_in (UpdateRichPresence activity # es) = activity # updates_in es"
| "updates_in (e # es) = updates_in es"

fun uploads_in :: "event list \<Rightarrow> (byte list \<times> wstring) list" where
  "uploads_in [] = []"
| "uploads_in (Upload binaryData url # es) = (binaryData, url) # uploads_in es"
| "uploads_in (e # es) = uploads_in es"

section \<open>Paths of a run\<close>

text \<open>
  Names for what the proofs below distinguish: the test the pipeline applies to the
  result of an upload, the console line that follows an upload, and the events of the
  thumbnail step on its paths without an upload (those ended by a WinRT error, and
  those that find no artwork).
\<close>

definition accepted :: "wstring \<Rightarrow> bool" where
  "accepted url \<longleftrightarrow>
     url \<noteq> [] \<and> find url (L ''Error:'') = npos \<and> find url (L ''Exception:'') = npos"

definition upload_log :: "OS \<Rightarrow> wstring \<Rightarrow> event list" where
  "upload_log os url =
     (if url = [] then []
      else if accepted url then [Cout (Upload_successful (ws2s os (c_str url)))]
      else [Cerr (Failed_to_upload (ws2s os (c_str url)))])"

definition raising_paths :: "event list set" where
  "raising_paths =
     {[Co_await Call_OpenReadAsync],
      [Co_await Call_OpenReadAsync, Co_await Call_CopyAsync],
      [Co_await Call_OpenReadAsync, Co_await Call_CopyAsync, Co_await Call_LoadAsync]}"

definition artless_paths :: "string \<Rightarrow> event list set" where
  "artless_paths t =
     {[Cout (No_cover_art t)],
      [Co_await Call_OpenReadAsync],
      [Co_await Call_OpenReadAsync, Co_await Call_CopyAsync, Cout (MemoryStream_size_0 t)],
      [Co_await Call_OpenReadAsync, Co_await Call_CopyAsync, Co_await Call_LoadAsync,
       Cout (Zero_bytes_loaded t)],
      [Co_await Call_OpenReadAsync, Co_await Call_CopyAsync, Co_await Call_LoadAsync,
       Cerr Zero_length_buffer]}"

section \<open>Sample inputs\<close>

text \<open>
  A system on which every call succeeds and the upload utility prints a URL and a line
  feed, with ASCII conversions between the two kinds of string; variants of it; a
  session of the TIDAL application playing one song, with or without a thumbnail; a
  session of another application.
\<close>

definition wide_to_ascii :: "wstring \<Rightarrow> string" where
  "wide_to_ascii wstr = map (\<lambda>c. char_of (unat c)) wstr"

definition plain_os :: OS where
  "plain_os =
     \<lparr>WideCharToMultiByte = wide_to_ascii,
      MultiByteToWideChar = L,
      CopyAsync = (\<lambda>stream. Inr (Size stream)),
      LoadAsync = (\<lambda>count. Inr count),
      ReadBuffer = (\<lambda>count. Inr [0x89, 0x50, 0x4E]),
      GetTempPathW = Some (L (''C:'' @ [CHR 0x5C] @ ''Temp'' @ [CHR 0x5C])),
      system_clock_now = (\<lambda>k. 17900000000000000),
      ofstream_is_open = True,
      CreatePipe = True,
      SetHandleInformation = True,
      CreateProcessW = (\<lambda>command. Inr [''https://0x0.st/abc.png'' @ [CHR 0x0A]])\<rparr>"

definition spawn_fails_os :: OS where
  "spawn_fails_os = plain_os\<lparr>CreateProcessW := (\<lambda>command. Inl 2)\<rparr>"

definition access_denied :: hresult_error where
  "access_denied = \<lparr>code = 0x80070005, message = L ''Access is denied.''\<rparr>"

definition song_A :: "RandomAccessStreamReference option \<Rightarrow> MediaProperties" where
  "song_A thumbnail =
     \<lparr>Title = L ''Song A'', Artist = L ''Artist A'', AlbumTitle = L ''Album A'',
      Thumbnail = thumbnail\<rparr>"

definition readable :: RandomAccessStreamReference where
  "readable = \<lparr>OpenReadAsync = Inr (Some \<lparr>Size = 3\<rparr>)\<rparr>"

definition unreadable :: RandomAccessStreamReference where
  "unreadable = \<lparr>OpenReadAsync = Inl access_denied\<rparr>"

definition tidal_session :: "hresult_error + MediaProperties \<Rightarrow> Session" where
  "tidal_session fetch =
     \<lparr>SourceAppUserModelId = Inr (L ''TIDAL.exe!App''),
      TryGetMediaPropertiesAsync = fetch\<rparr>"

definition spotify_session :: Session where
  "spotify_session =
     \<lparr>SourceAppUserModelId = Inr (L ''Spotify.exe!App''),
      TryGetMediaPropertiesAsync = Inr (song_A None)\<rparr>"

definition state_with :: "Session option \<Rightarrow> trackInfo \<Rightarrow> bool \<Rightarrow> app_state" where
  "state_with session cache flag =
     \<lparr>g_currentSession = session, g_lastTrackProcessed = cache, g_isParsing = flag,
      presence = None, files = Map.empty, trace = []\<rparr>"

definition cached_song_A :: app_state where
  "cached_song_A =
     state_with (Some (tidal_session (Inr (song_A None)))) (fetched_track (song_A None)) False"

definition fetch_fails :: app_state where
  "fetch_fails =
     state_with (Some (tidal_session (Inl access_denied))) (fetched_track (song_A None)) False"

definition nul_output_os :: OS where
  "nul_output_os =
     plain_os\<lparr>CreateProcessW :=
       (\<lambda>command. Inr [''https://0x0.st/a'' @ [CHR 0x00] @ ''b.png'' @ [CHR 0x0A]])\<rparr>"

definition nul_url :: wstring where
  "nul_url = L ''https://0x0.st/a'' @ [0] @ L ''b.png''"

definition fresh_song_A :: app_state where
  "fresh_song_A =
     state_with (Some (tidal_session (Inr (song_A (Some readable))))) empty_trackInfo False"

definition after_failed_upload :: app_state where
  "after_failed_upload = snd (parseTrack spawn_fails_os False fresh_song_A)"

definition after_nul_output :: app_state where
  "after_nul_output = snd (parseTrack nul_output_os False fresh_song_A)"

definition busy_without_session :: app_state where
  "busy_without_session =
     (state_with None (fetched_track (song_A None)) True)
       \<lparr>presence := Some (make_activity plain_os (fetched_track (song_A None)))\<rparr>"

definition forced_unreadable :: app_state where
  "forced_unreadable =
     state_with (Some (tidal_session (Inr (song_A (Some unreadable))))) empty_trackInfo False"

definition replaying_song_A :: app_state where
  "replaying_song_A =
     state_with (Some (tidal_session (Inr (song_A (Some readable)))))
       (fetched_track (song_A (Some readable))) False"

definition after_upload :: app_state where
  "after_upload = snd (parseTrack plain_os False fresh_song_A)"

definition other_application :: app_state where
  "other_application = state_with (Some spotify_session) (fetched_track (song_A None)) False"

definition one_file :: "wstring \<rightharpoonup> byte list" where
  "one_file = [L ''notes.txt'' \<mapsto> [0x68, 0x69]]"

section \<open>Basic facts\<close>

subsection \<open>The coroutine run alone\<close>

lemma run_from_OpenReadAsync:
  assumes "Thumbnail mediaProperties = Some thumbnail"
  shows "run_to_return os (Suspended (At_OpenReadAsync track thumbnail))
           (co_await Call_OpenReadAsync s) =
     (case thumbnail_step os mediaProperties track s of
        (Inl ex, s') \<Rightarrow> (Inr (), snd (caught os ex s'))
      | (Inr track', s') \<Rightarrow> (Inr (), snd (reported os track' s')))"
  using assms
  by (simp add: thumbnail_step_def resume_def caught_def reported_def Let_def split_beta
      split: option.splits sum.splits)

lemma run_from_TryGetMediaPropertiesAsync:
  "run_to_return os (Suspended (At_TryGetMediaPropertiesAsync force session)) s =
     (case TryGetMediaPropertiesAsync session of
        Inl ex \<Rightarrow> (Inr (), snd (caught os ex s))
      | Inr mediaProperties \<Rightarrow>
          if \<not> force
             \<and> title (fetched_track mediaProperties) = title (g_lastTrackProcessed s)
             \<and> artist (fetched_track mediaProperties) = artist (g_lastTrackProcessed s)
          then (Inr (),
                ParsingGuard_dtor
                  (cout (Duplicate_event (ws2s os (title (fetched_track mediaProperties)))) s))
          else
            (case thumbnail_step os mediaProperties (fetched_track mediaProperties) s of
               (Inl ex, s') \<Rightarrow> (Inr (), snd (caught os ex s'))
             | (Inr track', s') \<Rightarrow> (Inr (), snd (reported os track' s'))))"
proof (cases "TryGetMediaPropertiesAsync session")
  case (Inl ex)
  then show ?thesis
    by (simp add: resume_def caught_def Let_def)
next
  case (Inr mediaProperties)
  show ?thesis
  proof (cases "Thumbnail mediaProperties")
    case None
    with Inr show ?thesis
      by (simp add: resume_def reported_def thumbnail_step_def Let_def)
  next
    case (Some thumbnail)
    have "resume os (At_TryGetMediaPropertiesAsync force session) s =
       (if \<not> force
           \<and> title (fetched_track mediaProperties) = title (g_lastTrackProcessed s)
           \<and> artist (fetched_track mediaProperties) = artist (g_lastTrackProcessed s)
        then (Returned (Inr ()),
              ParsingGuard_dtor
                (cout (Duplicate_event (ws2s os (title (fetched_track mediaProperties)))) s))
        else (Suspended (At_OpenReadAsync (fetched_track mediaProperties) thumbnail),
              co_await Call_OpenReadAsync s))"
      using Inr Some by (simp add: resume_def Let_def)
    then have "run_to_return os (Suspended (At_TryGetMediaPropertiesAsync force session)) s =
       (if \<not> force
           \<and> title (fetched_track mediaProperties) = title (g_lastTrackProcessed s)
           \<and> artist (fetched_track mediaProperties) = artist (g_lastTrackProcessed s)
        then run_to_return os (Returned (Inr ()))
               (ParsingGuard_dtor
                 (cout (Duplicate_event (ws2s os (title (fetched_track mediaProperties)))) s))
        else run_to_return os
               (Suspended (At_OpenReadAsync (fetched_track mediaProperties) thumbnail))
               (co_await Call_OpenReadAsync s))"
      unfolding run_to_return.simps(2) [of os "At_TryGetMediaPropertiesAsync force session"]
      by simp
    then show ?thesis
      unfolding run_from_OpenReadAsync [OF Some] run_to_return.simps(1) Inr
      by simp
  qed
qed

text \<open>
  Read without its suspensions, a run is the entry guard followed by the body between the
  constructor and the destructor of the \<open>ParsingGuard\<close>.
\<close>

lemma parseTrack_at_once:
  "parseTrack os force s =
     (if \<not> force \<and> g_isParsing s then (Inr (), cout Already_processing s)
      else
        (case parseTrack_body os force (ParsingGuard_ctor s) of
           (r, s) \<Rightarrow> (r, ParsingGuard_dtor s)))"
proof (cases "\<not> force \<and> g_isParsing s")
  case True
  then show ?thesis by (simp add: parseTrack_def start_def)
next
  case False
  then have start: "start os force s =
     (let s = ParsingGuard_ctor s in
        (case g_currentSession s of
           Some session \<Rightarrow>
             (case SourceAppUserModelId session of
                Inl ex \<Rightarrow> caught os ex s
              | Inr appId \<Rightarrow>
                  if find appId (L ''TIDAL'') \<noteq> npos
                  then (Suspended (At_TryGetMediaPropertiesAsync force session),
                        co_await Call_TryGetMediaPropertiesAsync s)
                  else
                    let s = cout No_TIDAL_session s;
                        s = clearPresence s;
                        s = s\<lparr>g_lastTrackProcessed := empty_trackInfo\<rparr>
                    in (Returned (Inr ()), ParsingGuard_dtor s))
         | None \<Rightarrow>
             let s = cout No_media_session s;
                 s = clearPresence s;
                 s = s\<lparr>g_lastTrackProcessed := empty_trackInfo\<rparr>
             in (Returned (Inr ()), ParsingGuard_dtor s)))"
    unfolding start_def by (simp only: if_False)
  have "parseTrack os force s =
     (case parseTrack_body os force (ParsingGuard_ctor s) of
        (r, s) \<Rightarrow> (r, ParsingGuard_dtor s))"
    unfolding parseTrack_def start
    by (simp add: parseTrack_body_def try_block_def
        run_from_TryGetMediaPropertiesAsync caught_def reported_def Let_def split_beta
        del: run_to_return.simps(2) split: option.splits sum.splits)
  with False show ?thesis by (simp only: if_False)
qed

lemma find_from_npos: "find_from pat view i = npos \<longleftrightarrow> \<not> sublist pat view"
  by (induction view arbitrary: i) (auto simp: sublist_Cons_right)

lemma find_npos_iff: "find view pat = npos \<longleftrightarrow> \<not> sublist pat view"
  unfolding find_def by (rule find_from_npos)

lemmas step_defs = cout_def cerr_def co_await_def clearPresence_def updatePresence_def
  ParsingGuard_ctor_def ParsingGuard_dtor_def

lemmas sample_defs = plain_os_def spawn_fails_os_def access_denied_def song_A_def readable_def
  unreadable_def tidal_session_def spotify_session_def state_with_def wide_to_ascii_def
  one_file_def cached_song_A_def fetch_fails_def

lemmas run_defs = parseTrack_at_once parseTrack_body_def try_block_def thumbnail_step_def
  upload_step_def step_defs events_of_def fetched_track_def find_def L_def c_str_def
  empty_trackInfo_def Let_def BufferToVector_def

lemma upload_step_nonempty:
  assumes "stableData \<noteq> []"
  shows "upload_step os stableData track s =
     (case UploadCoverArtAsync os stableData (files s) of
        (url, fs) \<Rightarrow>
          (track\<lparr>coverArtUrl := (if accepted url then c_str url else coverArtUrl track)\<rparr>,
           s\<lparr>files := fs,
             trace := trace s @ [Cout (Found_cover_art (ws2s os (title track))),
                                 Upload stableData url] @ upload_log os url\<rparr>))"
  using assms
  by (auto simp: upload_step_def accepted_def upload_log_def cout_def cerr_def Let_def
      split: prod.splits)

lemma thumbnail_step_cases:
  assumes "thumbnail_step os mp track s = (res, s')"
  shows "(\<exists>ex evs. res = Inl ex \<and> evs \<in> raising_paths \<and> s' = s\<lparr>trace := trace s @ evs\<rparr>)
       \<or> (\<exists>evs. res = Inr track \<and> evs \<in> artless_paths (ws2s os (title track))
             \<and> s' = s\<lparr>trace := trace s @ evs\<rparr>)
       \<or> (\<exists>buffer url fs. buffer \<noteq> [] \<and> UploadCoverArtAsync os buffer (files s) = (url, fs)
             \<and> res = Inr (track\<lparr>coverArtUrl :=
                             (if accepted url then c_str url else coverArtUrl track)\<rparr>)
             \<and> s' = s\<lparr>files := fs,
                       trace := trace s @
                         [Co_await Call_OpenReadAsync, Co_await Call_CopyAsync,
                          Co_await Call_LoadAsync,
                          Cout (Found_cover_art (ws2s os (title track))),
                          Upload buffer url] @ upload_log os url\<rparr>)"
  using assms
  by (auto simp: thumbnail_step_def upload_step_nonempty BufferToVector_def co_await_def
      cout_def cerr_def raising_paths_def artless_paths_def Let_def
      split: option.splits sum.splits if_splits prod.splits)

lemma updates_in_append: "updates_in (xs @ ys) = updates_in xs @ updates_in ys"
  by (induction xs rule: updates_in.induct) simp_all
lemma uploads_in_append: "uploads_in (xs @ ys) = uploads_in xs @ uploads_in ys"
  by (induction xs rule: uploads_in.induct) simp_all

text \<open>Normal form of a run that gets past the duplicate check.\<close>

lemma parseTrack_fresh:
  assumes "force \<or> \<not> g_isParsing s"
    and "g_currentSession s = Some session"
    and "SourceAppUserModelId session = Inr appId"
    and "find appId (L ''TIDAL'') \<noteq> npos"
    and "TryGetMediaPropertiesAsync session = Inr mp"
    and "force \<or> title (fetched_track mp) \<noteq> title (g_lastTrackProcessed s)
           \<or> artist (fetched_track mp) \<noteq> artist (g_lastTrackProcessed s)"
  shows "parseTrack os force s =
     (case thumbnail_step os mp (fetched_track mp)
             (s\<lparr>g_isParsing := True,
                trace := trace s @ [Co_await Call_TryGetMediaPropertiesAsync]\<rparr>) of
        (Inl ex, s1) \<Rightarrow>
          (Inr (), s1\<lparr>g_isParsing := False, g_lastTrackProcessed := empty_trackInfo,
                      trace := trace s1 @ [Cerr (Failed_to_parse (ws2s os (c_str (message ex))))]\<rparr>)
      | (Inr track, s1) \<Rightarrow>
          (Inr (), s1\<lparr>g_isParsing := False, g_lastTrackProcessed := track,
                      presence := Some (make_activity os track),
                      trace := trace s1 @ [UpdateRichPresence (make_activity os track)]\<rparr>))"
  using assms
  by (auto simp: parseTrack_at_once parseTrack_body_def try_block_def step_defs Let_def
      split: prod.splits sum.splits)

lemma parseTrack_fresh_cases:
  assumes "force \<or> \<not> g_isParsing s"
    and "g_currentSession s = Some session"
    and "SourceAppUserModelId session = Inr appId"
    and "find appId (L ''TIDAL'') \<noteq> npos"
    and "TryGetMediaPropertiesAsync session = Inr mp"
    and "force \<or> title (fetched_track mp) \<noteq> title (g_lastTrackProcessed s)
           \<or> artist (fetched_track mp) \<noteq> artist (g_lastTrackProcessed s)"
    and "parseTrack os force s = (r, s')"
  obtains (raised) ex :: hresult_error and evs where "evs \<in> raising_paths"
      and "s' = s\<lparr>g_isParsing := False, g_lastTrackProcessed := empty_trackInfo,
                   trace := trace s @ Co_await Call_TryGetMediaPropertiesAsync # evs
                      @ [Cerr (Failed_to_parse (ws2s os (c_str (message ex))))]\<rparr>"
    | (artless) evs where "evs \<in> artless_paths (ws2s os (title (fetched_track mp)))"
      and "s' = s\<lparr>g_isParsing := False, g_lastTrackProcessed := fetched_track mp,
                   presence := Some (make_activity os (fetched_track mp)),
                   trace := trace s @ Co_await Call_TryGetMediaPropertiesAsync # evs
                      @ [UpdateRichPresence (make_activity os (fetched_track mp))]\<rparr>"
    | (uploaded) buffer url fs track where "buffer \<noteq> []"
      and "UploadCoverArtAsync os buffer (files s) = (url, fs)"
      and "track = (fetched_track mp)\<lparr>coverArtUrl := (if accepted url then c_str url else [])\<rparr>"
      and "s' = s\<lparr>g_isParsing := False, g_lastTrackProcessed := track,
                   presence := Some (make_activity os track),
                   files := fs,
                   trace := trace s @
                     [Co_await Call_TryGetMediaPropertiesAsync,
                      Co_await Call_OpenReadAsync, Co_await Call_CopyAsync,
                      Co_await Call_LoadAsync,
                      Cout (Found_cover_art (ws2s os (title (fetched_track mp)))),
                      Upload buffer url] @ upload_log os url
                      @ [UpdateRichPresence (make_activity os track)]\<rparr>"
proof -
  let ?s0 = "s\<lparr>g_isParsing := True,
                trace := trace s @ [Co_await Call_TryGetMediaPropertiesAsync]\<rparr>"
  obtain res s1 where ts: "thumbnail_step os mp (fetched_track mp) ?s0 = (res, s1)"
    by (cases "thumbnail_step os mp (fetched_track mp) ?s0")
  have cover: "coverArtUrl (fetched_track mp) = []"
    by (simp add: fetched_track_def)
  have nf: "(r, s') =
     (case (res, s1) of
        (Inl ex, s1) \<Rightarrow>
          (Inr (), s1\<lparr>g_isParsing := False, g_lastTrackProcessed := empty_trackInfo,
                      trace := trace s1 @ [Cerr (Failed_to_parse (ws2s os (c_str (message ex))))]\<rparr>)
      | (Inr track, s1) \<Rightarrow>
          (Inr (), s1\<lparr>g_isParsing := False, g_lastTrackProcessed := track,
                      presence := Some (make_activity os track),
                      trace := trace s1 @ [UpdateRichPresence (make_activity os track)]\<rparr>))"
    using assms(7) unfolding parseTrack_fresh [OF assms(1-6)] ts by simp
  from thumbnail_step_cases [OF ts] show thesis
  proof (elim disjE exE conjE)
    fix ex evs
    assume a: "res = Inl ex" "evs \<in> raising_paths" "s1 = ?s0\<lparr>trace := trace ?s0 @ evs\<rparr>"
    have "s' = s\<lparr>g_isParsing := False, g_lastTrackProcessed := empty_trackInfo,
                       trace := trace s @ Co_await Call_TryGetMediaPropertiesAsync # evs
                          @ [Cerr (Failed_to_parse (ws2s os (c_str (message ex))))]\<rparr>"
      using nf unfolding a by simp
    with a(2) show ?thesis by (rule raised)
  next
    fix evs
    assume a: "res = Inr (fetched_track mp)"
      "evs \<in> artless_paths (ws2s os (title (fetched_track mp)))"
      "s1 = ?s0\<lparr>trace := trace ?s0 @ evs\<rparr>"
    have "s' = s\<lparr>g_isParsing := False, g_lastTrackProcessed := fetched_track mp,
                       presence := Some (make_activity os (fetched_track mp)),
                       trace := trace s @ Co_await Call_TryGetMediaPropertiesAsync # evs
                          @ [UpdateRichPresence (make_activity os (fetched_track mp))]\<rparr>"
      using nf unfolding a by simp
    with a(2) show ?thesis by (rule artless)
  next
    fix buffer url fs
    assume a: "buffer \<noteq> []" "UploadCoverArtAsync os buffer (files ?s0) = (url, fs)"
      "res = Inr ((fetched_track mp)\<lparr>coverArtUrl :=
                    (if accepted url then c_str url else coverArtUrl (fetched_track mp))\<rparr>)"
      "s1 = ?s0\<lparr>files := fs,
                       trace := trace ?s0 @
                         [Co_await Call_OpenReadAsync, Co_await Call_CopyAsync,
                          Co_await Call_LoadAsync,
                          Cout (Found_cover_art (ws2s os (title (fetched_track mp)))),
                          Upload buffer url] @ upload_log os url\<rparr>"
    define track where
      "track = (fetched_track mp)\<lparr>coverArtUrl := (if accepted url then c_str url else [])\<rparr>"
    have "s' = s\<lparr>g_isParsing := False, g_lastTrackProcessed := track,
                       presence := Some (make_activity os track),
                       files := fs,
                       trace := trace s @
                         [Co_await Call_TryGetMediaPropertiesAsync,
                          Co_await Call_OpenReadAsync, Co_await Call_CopyAsync,
                          Co_await Call_LoadAsync,
                          Cout (Found_cover_art (ws2s os (title (fetched_track mp)))),
                          Upload buffer url] @ upload_log os url
                          @ [UpdateRichPresence (make_activity os track)]\<rparr>"
      using nf unfolding a(3,4) track_def cover by simp
    moreover have "UploadCoverArtAsync os buffer (files s) = (url, fs)"
      using a(2) by simp
    ultimately show ?thesis using a(1) track_def by (intro uploaded)
  qed
qed

lemma parseTrack_blocked:
  assumes "\<not> force" and "g_isParsing s"
  shows "parseTrack os force s = (Inr (), s\<lparr>trace := trace s @ [Cout Already_processing]\<rparr>)"
  using assms by (simp add: parseTrack_at_once cout_def)

lemma parseTrack_no_session:
  assumes "force \<or> \<not> g_isParsing s" and "g_currentSession s = None"
  shows "parseTrack os force s =
     (Inr (), s\<lparr>g_isParsing := False, g_lastTrackProcessed := empty_trackInfo,
                 presence := None,
                 trace := trace s @ [Cout No_media_session, ClearRichPresence]\<rparr>)"
  using assms by (auto simp: parseTrack_at_once parseTrack_body_def step_defs)

lemma parseTrack_appId_raises:
  assumes "force \<or> \<not> g_isParsing s" and "g_currentSession s = Some session"
    and "SourceAppUserModelId session = Inl ex"
  shows "parseTrack os force s =
     (Inr (), s\<lparr>g_isParsing := False, g_lastTrackProcessed := empty_trackInfo,
                 trace := trace s @ [Cerr (Failed_to_parse (ws2s os (c_str (message ex))))]\<rparr>)"
  using assms by (auto simp: parseTrack_at_once parseTrack_body_def try_block_def step_defs)

lemma parseTrack_other_app:
  assumes "force \<or> \<not> g_isParsing s" and "g_currentSession s = Some session"
    and "SourceAppUserModelId session = Inr appId"
    and "find appId (L ''TIDAL'') = npos"
  shows "parseTrack os force s =
     (Inr (), s\<lparr>g_isParsing := False, g_lastTrackProcessed := empty_trackInfo,
                 presence := None,
                 trace := trace s @ [Cout No_TIDAL_session, ClearRichPresence]\<rparr>)"
  using assms by (auto simp: parseTrack_at_once parseTrack_body_def try_block_def step_defs)

lemma parseTrack_fetch_raises:
  assumes "force \<or> \<not> g_isParsing s" and "g_currentSession s = Some session"
    and "SourceAppUserModelId session = Inr appId"
    and "find appId (L ''TIDAL'') \<noteq> npos"
    and "TryGetMediaPropertiesAsync session = Inl ex"
  shows "parseTrack os force s =
     (Inr (), s\<lparr>g_isParsing := False, g_lastTrackProcessed := empty_trackInfo,
                 trace := trace s @ [Co_await Call_TryGetMediaPropertiesAsync,
                    Cerr (Failed_to_parse (ws2s os (c_str (message ex))))]\<rparr>)"
  using assms by (auto simp: parseTrack_at_once parseTrack_body_def try_block_def step_defs)

lemma parseTrack_duplicate:
  assumes "\<not> force" and "\<not> g_isParsing s" and "g_currentSession s = Some session"
    and "SourceAppUserModelId session = Inr appId"
    and "find appId (L ''TIDAL'') \<noteq> npos"
    and "TryGetMediaPropertiesAsync session = Inr mp"
    and "title (fetched_track mp) = title (g_lastTrackProcessed s)"
    and "artist (fetched_track mp) = artist (g_lastTrackProcessed s)"
  shows "parseTrack os force s =
     (Inr (), s\<lparr>g_isParsing := False,
                 trace := trace s @ [Co_await Call_TryGetMediaPropertiesAsync,
                    Cout (Duplicate_event (ws2s os (title (fetched_track mp))))]\<rparr>)"
  using assms by (auto simp: parseTrack_at_once parseTrack_body_def try_block_def step_defs)

lemma parseTrack_cases:
  assumes run: "parseTrack os force s = (r, s')"
  obtains
    (blocked) "\<not> force" and "g_isParsing s"
      and "s' = s\<lparr>trace := trace s @ [Cout Already_processing]\<rparr>"
  | (no_session) "force \<or> \<not> g_isParsing s" and "g_currentSession s = None"
      and "s' = s\<lparr>g_isParsing := False, g_lastTrackProcessed := empty_trackInfo,
                   presence := None,
                   trace := trace s @ [Cout No_media_session, ClearRichPresence]\<rparr>"
  | (appId_raises) session and ex :: hresult_error
    where "force \<or> \<not> g_isParsing s" and "g_currentSession s = Some session"
      and "SourceAppUserModelId session = Inl ex"
      and "s' = s\<lparr>g_isParsing := False, g_lastTrackProcessed := empty_trackInfo,
                 trace := trace s @ [Cerr (Failed_to_parse (ws2s os (c_str (message ex))))]\<rparr>"
  | (other_app) session appId
    where "force \<or> \<not> g_isParsing s" and "g_currentSession s = Some session"
      and "SourceAppUserModelId session = Inr appId"
      and "find appId (L ''TIDAL'') = npos"
      and "s' = s\<lparr>g_isParsing := False, g_lastTrackProcessed := empty_trackInfo,
                 presence := None,
                 trace := trace s @ [Cout No_TIDAL_session, ClearRichPresence]\<rparr>"
  | (fetch_raises) session appId and ex :: hresult_error
    where "force \<or> \<not> g_isParsing s" and "g_currentSession s = Some session"
      and "SourceAppUserModelId session = Inr appId"
      and "find appId (L ''TIDAL'') \<noteq> npos"
      and "TryGetMediaPropertiesAsync session = Inl ex"
      and "s' = s\<lparr>g_isParsing := False, g_lastTrackProcessed := empty_trackInfo,
                 trace := trace s @ [Co_await Call_TryGetMediaPropertiesAsync,
                    Cerr (Failed_to_parse (ws2s os (c_str (message ex))))]\<rparr>"
  | (duplicate) session appId mp
    where "\<not> force" and "\<not> g_isParsing s" and "g_currentSession s = Some session"
      and "SourceAppUserModelId session = Inr appId"
      and "find appId (L ''TIDAL'') \<noteq> npos"
      and "TryGetMediaPropertiesAsync session = Inr mp"
      and "title (fetched_track mp) = title (g_lastTrackProcessed s)"
      and "artist (fetched_track mp) = artist (g_lastTrackProcessed s)"
      and "s' = s\<lparr>g_isParsing := False,
                 trace := trace s @ [Co_await Call_TryGetMediaPropertiesAsync,
                    Cout (Duplicate_event (ws2s os (title (fetched_track mp))))]\<rparr>"
  | (raised) session appId mp evs and ex :: hresult_error
    where "force \<or> \<not> g_isParsing s" and "g_currentSession s = Some session"
      and "SourceAppUserModelId session = Inr appId"
      and "find appId (L ''TIDAL'') \<noteq> npos"
      and "TryGetMediaPropertiesAsync session = Inr mp"
      and "force \<or> title (fetched_track mp) \<noteq> title (g_lastTrackProcessed s)
           \<or> artist (fetched_track mp) \<noteq> artist (g_lastTrackProcessed s)"
      and "evs \<in> raising_paths"
      and "s' = s\<lparr>g_isParsing := False, g_lastTrackProcessed := empty_trackInfo,
                   trace := trace s @ Co_await Call_TryGetMediaPropertiesAsync # evs
                      @ [Cerr (Failed_to_parse (ws2s os (c_str (message ex))))]\<rparr>"
  | (artless) session appId mp evs
    where "force \<or> \<not> g_isParsing s" and "g_currentSession s = Some session"
      and "SourceAppUserModelId session = Inr appId"
      and "find appId (L ''TIDAL'') \<noteq> npos"
      and "TryGetMediaPropertiesAsync session = Inr mp"
      and "force \<or> title (fetched_track mp) \<noteq> title (g_lastTrackProcessed s)
           \<or> artist (fetched_track mp) \<noteq> artist (g_lastTrackProcessed s)"
      and "evs \<in> artless_paths (ws2s os (title (fetched_track mp)))"
      and "s' = s\<lparr>g_isParsing := False, g_lastTrackProcessed := fetched_track mp,
                   presence := Some (make_activity os (fetched_track mp)),
                   trace := trace s @ Co_await Call_TryGetMediaPropertiesAsync # evs
                      @ [UpdateRichPresence (make_activity os (fetched_track mp))]\<rparr>"
  | (uploaded) session appId mp buffer url fs track
    where "force \<or> \<not> g_isParsing s" and "g_currentSession s = Some session"
      and "SourceAppUserModelId session = Inr appId"
      and "find appId (L ''TIDAL'') \<noteq> npos"
      and "TryGetMediaPropertiesAsync session = Inr mp"
      and "force \<or> title (fetched_track mp) \<noteq> title (g_lastTrackProcessed s)
           \<or> artist (fetched_track mp) \<noteq> artist (g_lastTrackProcessed s)"
      and "buffer \<noteq> []"
      and "UploadCoverArtAsync os buffer (files s) = (url, fs)"
      and "track = (fetched_track mp)\<lparr>coverArtUrl := (if accepted url then c_str url else [])\<rparr>"
      and "s' = s\<lparr>g_isParsing := False, g_lastTrackProcessed := track,
                   presence := Some (make_activity os track),
                   files := fs,
                   trace := trace s @
                     [Co_await Call_TryGetMediaPropertiesAsync,
                      Co_await Call_OpenReadAsync, Co_await Call_CopyAsync,
                      Co_await Call_LoadAsync,
                      Cout (Found_cover_art (ws2s os (title (fetched_track mp)))),
                      Upload buffer url] @ upload_log os url
                      @ [UpdateRichPresence (make_activity os track)]\<rparr>"
proof (cases "\<not> force \<and> g_isParsing s")
  case True
  with run [symmetric] parseTrack_blocked [of force s os] show thesis
    by (intro blocked) simp_all
next
  case False
  then have guard: "force \<or> \<not> g_isParsing s" by blast
  show thesis
  proof (cases "g_currentSession s")
    case None
    with run [symmetric] parseTrack_no_session [OF guard, of os] show thesis
      by (intro no_session guard) simp_all
  next
    case (Some session)
    note sess = this
    show thesis
    proof (cases "SourceAppUserModelId session")
      case (Inl ex)
      with run [symmetric] parseTrack_appId_raises [OF guard sess, of ex os] show thesis
        by (intro appId_raises [OF guard sess]) simp_all
    next
      case (Inr appId)
      note app = this
      show thesis
      proof (cases "find appId (L ''TIDAL'') = npos")
        case True
        with run [symmetric] parseTrack_other_app [OF guard sess app, of os] show thesis
          by (intro other_app [OF guard sess app]) simp_all
      next
        case False
        note tidal = this
        show thesis
        proof (cases "TryGetMediaPropertiesAsync session")
          case (Inl ex)
          with run [symmetric] parseTrack_fetch_raises [OF guard sess app tidal, of ex os] show thesis
            by (intro fetch_raises [OF guard sess app tidal]) simp_all
        next
          case (Inr mp)
          note fetch = this
          show thesis
          proof (cases "\<not> force \<and> title (fetched_track mp) = title (g_lastTrackProcessed s)
                 \<and> artist (fetched_track mp) = artist (g_lastTrackProcessed s)")
            case True
            with guard have f: "\<not> force" and g: "\<not> g_isParsing s"
              and t: "title (fetched_track mp) = title (g_lastTrackProcessed s)"
              and a: "artist (fetched_track mp) = artist (g_lastTrackProcessed s)"
              by blast+
            from run [symmetric] parseTrack_duplicate [OF f g sess app tidal fetch t a, of os] show thesis
              by (intro duplicate [OF f g sess app tidal fetch t a]) simp_all
          next
            case False
            then have fresh: "force \<or> title (fetched_track mp) \<noteq> title (g_lastTrackProcessed s)
                \<or> artist (fetched_track mp) \<noteq> artist (g_lastTrackProcessed s)"
              by blast
            show thesis
              by (rule parseTrack_fresh_cases [OF guard sess app tidal fetch fresh run])
                 (erule (1) raised [OF guard sess app tidal fetch fresh]
                        artless [OF guard sess app tidal fetch fresh]
                        uploaded [OF guard sess app tidal fetch fresh])+
          qed
        qed
      qed
    qed
  qed
qed

lemma parseTrack_returns: "fst (parseTrack os force s) = Inr ()"
  by (simp add: parseTrack_at_once parseTrack_body_def Let_def split_beta
      split: option.splits sum.splits)

lemma quiet_raising:
  assumes "evs \<in> raising_paths"
  shows "updates_in evs = []" and "uploads_in evs = []" and "Upload d u \<notin> set evs"
    and "Cerr m \<notin> set evs" and "Cout m \<notin> set evs"
  using assms by (auto simp: raising_paths_def)

lemma quiet_artless:
  assumes "evs \<in> artless_paths t"
  shows "updates_in evs = []" and "uploads_in evs = []" and "Upload d u \<notin> set evs"
    and "Cerr (Failed_to_parse m) \<notin> set evs" and "Cerr (Failed_to_upload m) \<notin> set evs"
    and "Cout (Upload_successful m) \<notin> set evs"
  using assms by (auto simp: artless_paths_def)

lemma quiet_upload_log:
  shows "updates_in (upload_log os url) = []" and "uploads_in (upload_log os url) = []"
    and "Upload d u \<notin> set (upload_log os url)"
    and "Cerr (Failed_to_parse m) \<notin> set (upload_log os url)"
  by (auto simp: upload_log_def)

lemma error_prefixed_rejected:
  assumes "prefix (L ''Error:'') url"
  shows "\<not> accepted url"
  using assms by (auto simp: accepted_def find_npos_iff)


subsection \<open>The sample runs\<close>

lemma error_prefixed:
  assumes "prefix (L ''Error:'') url"
  shows "\<not> accepted url"
    and "upload_log os url = [Cerr (Failed_to_upload (ws2s os (c_str url)))]"
proof -
  from assms show "\<not> accepted url"
    by (auto simp: accepted_def find_npos_iff)
  moreover from assms have "url \<noteq> []"
    by (auto simp: L_def)
  ultimately show "upload_log os url = [Cerr (Failed_to_upload (ws2s os (c_str url)))]"
    by (simp add: upload_log_def)
qed

lemma fetched_track_no_art:
  "(fetched_track mp)\<lparr>coverArtUrl := []\<rparr> = fetched_track mp"
  by (simp add: fetched_track_def)

lemma sample_streams:
  "CopyAsync plain_os \<lparr>Size = 3\<rparr> = Inr 3" "LoadAsync plain_os 3 = Inr 3"
  "ReadBuffer plain_os 3 = Inr [0x89, 0x50, 0x4E]"
  "CopyAsync spawn_fails_os \<lparr>Size = 3\<rparr> = Inr 3" "LoadAsync spawn_fails_os 3 = Inr 3"
  "ReadBuffer spawn_fails_os 3 = Inr [0x89, 0x50, 0x4E]"
  "CopyAsync nul_output_os \<lparr>Size = 3\<rparr> = Inr 3" "LoadAsync nul_output_os 3 = Inr 3"
  "ReadBuffer nul_output_os 3 = Inr [0x89, 0x50, 0x4E]"
  by (simp_all add: plain_os_def spawn_fails_os_def nul_output_os_def)

lemma sample_uploads:
  "fst (UploadCoverArtAsync plain_os binaryData fs) = L ''https://0x0.st/abc.png''"
  "fst (UploadCoverArtAsync spawn_fails_os binaryData fs)
     = L ''Error: CreateProcess failed with code 2''"
  "fst (UploadCoverArtAsync nul_output_os binaryData fs) = nul_url"
  by (simp_all add: UploadCoverArtAsync_def plain_os_def spawn_fails_os_def nul_output_os_def
      Let_def to_wide_def pop_newline_def to_string_def digits.simps L_def nul_url_def)

lemma upload_leaves_no_file:
  "snd (UploadCoverArtAsync os binaryData Map.empty) = Map.empty"
  by (simp add: UploadCoverArtAsync_def DeleteFileW_def Let_def split: option.splits)

lemma sample_urls:
  "accepted (L ''https://0x0.st/abc.png'')"
  "c_str (L ''https://0x0.st/abc.png'') = L ''https://0x0.st/abc.png''"
  "\<not> accepted (L ''Error: CreateProcess failed with code 2'')"
  "L ''Error: CreateProcess failed with code 2'' \<noteq> []"
  "accepted nul_url"
  "c_str nul_url = L ''https://0x0.st/a''"
  "nul_url \<noteq> []"
  by (simp_all add: accepted_def find_def c_str_def L_def nul_url_def)

lemma thumbnail_step_readable:
  assumes "CopyAsync os \<lparr>Size = 3\<rparr> = Inr 3" and "LoadAsync os 3 = Inr 3"
    and "ReadBuffer os 3 = Inr buffer" and "buffer \<noteq> []"
    and "files s = Map.empty"
    and "fst (UploadCoverArtAsync os buffer Map.empty) = url"
  shows "thumbnail_step os (song_A (Some readable)) track s =
     (Inr (track\<lparr>coverArtUrl := (if accepted url then c_str url else coverArtUrl track)\<rparr>),
      s\<lparr>files := Map.empty,
        trace := trace s @
          [Co_await Call_OpenReadAsync, Co_await Call_CopyAsync, Co_await Call_LoadAsync,
           Cout (Found_cover_art (ws2s os (title track))), Upload buffer url]
          @ upload_log os url\<rparr>)"
  using assms upload_leaves_no_file [of os buffer]
  by (simp add: thumbnail_step_def upload_step_nonempty BufferToVector_def song_A_def
      readable_def co_await_def split_beta)

lemma song_A_session:
  "g_currentSession (state_with (Some (tidal_session fetch)) cache flag)
     = Some (tidal_session fetch)"
  "SourceAppUserModelId (tidal_session fetch) = Inr (L ''TIDAL.exe!App'')"
  "find (L ''TIDAL.exe!App'') (L ''TIDAL'') \<noteq> npos"
  "TryGetMediaPropertiesAsync (tidal_session fetch) = fetch"
  "fetched_track (song_A thumbnail)
     = \<lparr>title = L ''Song A'', artist = L ''Artist A'', album = L ''Album A'',
        coverArtUrl = []\<rparr>"
  by (simp_all add: state_with_def tidal_session_def find_def fetched_track_def song_A_def
      c_str_def L_def)

lemma song_A_readable_run:
  assumes "CopyAsync os \<lparr>Size = 3\<rparr> = Inr 3" and "LoadAsync os 3 = Inr 3"
    and "ReadBuffer os 3 = Inr buffer" and "buffer \<noteq> []"
    and "fst (UploadCoverArtAsync os buffer Map.empty) = url"
    and "force \<or> \<not> flag" and "force \<or> cache = empty_trackInfo"
    and "track = (fetched_track (song_A (Some readable)))
            \<lparr>coverArtUrl := (if accepted url then c_str url else [])\<rparr>"
  shows "parseTrack os force
           (state_with (Some (tidal_session (Inr (song_A (Some readable))))) cache flag) =
     (Inr (),
      \<lparr>g_currentSession = Some (tidal_session (Inr (song_A (Some readable)))),
       g_lastTrackProcessed = track,
       g_isParsing = False,
       presence = Some (make_activity os track),
       files = Map.empty,
       trace =
         [Co_await Call_TryGetMediaPropertiesAsync,
          Co_await Call_OpenReadAsync, Co_await Call_CopyAsync, Co_await Call_LoadAsync,
          Cout (Found_cover_art (ws2s os (title (fetched_track (song_A (Some readable)))))),
          Upload buffer url]
         @ upload_log os url @ [UpdateRichPresence (make_activity os track)]\<rparr>)"
proof -
  let ?s = "state_with (Some (tidal_session (Inr (song_A (Some readable))))) cache flag"
  have fresh: "force \<or> title (fetched_track (song_A (Some readable))) \<noteq> title (g_lastTrackProcessed ?s)
           \<or> artist (fetched_track (song_A (Some readable))) \<noteq> artist (g_lastTrackProcessed ?s)"
    using assms(7) by (auto simp: song_A_session state_with_def empty_trackInfo_def L_def)
  have guard: "force \<or> \<not> g_isParsing ?s"
    using assms(6) by (simp add: state_with_def)
  have files: "files (?s\<lparr>g_isParsing := True,
                trace := trace ?s @ [Co_await Call_TryGetMediaPropertiesAsync]\<rparr>) = Map.empty"
    by (simp add: state_with_def)
  show ?thesis
    unfolding parseTrack_fresh [OF guard song_A_session(1,2,3,4) fresh]
      thumbnail_step_readable [OF assms(1-4) files assms(5)]
    by (simp add: state_with_def assms(8) fetched_track_def)
qed

lemma fresh_song_A_fields:
  "g_currentSession fresh_song_A = Some (tidal_session (Inr (song_A (Some readable))))"
  "g_lastTrackProcessed fresh_song_A = empty_trackInfo"
  "\<not> g_isParsing fresh_song_A"
  "trace fresh_song_A = []"
  by (simp_all add: fresh_song_A_def state_with_def)

lemma after_failed_upload_eq:
  "parseTrack spawn_fails_os False fresh_song_A =
     (Inr (),
      \<lparr>g_currentSession = Some (tidal_session (Inr (song_A (Some readable)))),
       g_lastTrackProcessed = fetched_track (song_A (Some readable)),
       g_isParsing = False,
       presence = Some (make_activity spawn_fails_os (fetched_track (song_A (Some readable)))),
       files = Map.empty,
       trace =
         [Co_await Call_TryGetMediaPropertiesAsync,
          Co_await Call_OpenReadAsync, Co_await Call_CopyAsync, Co_await Call_LoadAsync,
          Cout (Found_cover_art (ws2s spawn_fails_os (L ''Song A''))),
          Upload [0x89, 0x50, 0x4E] (L ''Error: CreateProcess failed with code 2''),
          Cerr (Failed_to_upload
                  (ws2s spawn_fails_os (c_str (L ''Error: CreateProcess failed with code 2'')))),
          UpdateRichPresence
            (make_activity spawn_fails_os (fetched_track (song_A (Some readable))))]\<rparr>)"
  unfolding fresh_song_A_def
  by (subst song_A_readable_run [OF sample_streams(4,5,6) _ sample_uploads(2) _ _ refl])
     (simp_all add: sample_urls upload_log_def fetched_track_no_art song_A_session)

lemma L_Nil_iff: "L str = [] \<longleftrightarrow> str = []"
  by (simp add: L_def)

lemma thumbnail_step_unreadable:
  "thumbnail_step os (song_A (Some unreadable)) track s =
     (Inl access_denied, s\<lparr>trace := trace s @ [Co_await Call_OpenReadAsync]\<rparr>)"
  by (simp add: thumbnail_step_def song_A_def unreadable_def co_await_def)

lemma song_A_unreadable_run:
  assumes "force \<or> \<not> flag" and "force \<or> cache = empty_trackInfo"
  shows "parseTrack os force
           (state_with (Some (tidal_session (Inr (song_A (Some unreadable))))) cache flag) =
     (Inr (),
      \<lparr>g_currentSession = Some (tidal_session (Inr (song_A (Some unreadable)))),
       g_lastTrackProcessed = empty_trackInfo,
       g_isParsing = False,
       presence = None,
       files = Map.empty,
       trace =
         [Co_await Call_TryGetMediaPropertiesAsync, Co_await Call_OpenReadAsync,
          Cerr (Failed_to_parse (ws2s os (c_str (message access_denied))))]\<rparr>)"
proof -
  let ?s = "state_with (Some (tidal_session (Inr (song_A (Some unreadable))))) cache flag"
  have fresh: "force \<or> title (fetched_track (song_A (Some unreadable)))
                  \<noteq> title (g_lastTrackProcessed ?s)
           \<or> artist (fetched_track (song_A (Some unreadable)))
                  \<noteq> artist (g_lastTrackProcessed ?s)"
    using assms(2) by (auto simp: song_A_session state_with_def empty_trackInfo_def L_def)
  have guard: "force \<or> \<not> g_isParsing ?s"
    using assms(1) by (simp add: state_with_def)
  show ?thesis
    unfolding parseTrack_fresh [OF guard song_A_session(1,2,3,4) fresh]
      thumbnail_step_unreadable
    by (simp add: state_with_def)
qed

lemma after_forced_update_eq:
  "parseTrack plain_os True replaying_song_A =
     (Inr (),
      \<lparr>g_currentSession = Some (tidal_session (Inr (song_A (Some readable)))),
       g_lastTrackProcessed =
         (fetched_track (song_A (Some readable)))\<lparr>coverArtUrl := L ''https://0x0.st/abc.png''\<rparr>,
       g_isParsing = False,
       presence = Some (make_activity plain_os
         ((fetched_track (song_A (Some readable)))\<lparr>coverArtUrl := L ''https://0x0.st/abc.png''\<rparr>)),
       files = Map.empty,
       trace =
         [Co_await Call_TryGetMediaPropertiesAsync,
          Co_await Call_OpenReadAsync, Co_await Call_CopyAsync, Co_await Call_LoadAsync,
          Cout (Found_cover_art (ws2s plain_os (L ''Song A''))),
          Upload [0x89, 0x50, 0x4E] (L ''https://0x0.st/abc.png''),
          Cout (Upload_successful (ws2s plain_os (L ''https://0x0.st/abc.png''))),
          UpdateRichPresence (make_activity plain_os
            ((fetched_track (song_A (Some readable)))
               \<lparr>coverArtUrl := L ''https://0x0.st/abc.png''\<rparr>))]\<rparr>)"
  unfolding replaying_song_A_def
  by (subst song_A_readable_run [OF sample_streams(1,2,3) _ sample_uploads(1) _ _ refl])
     (simp_all add: sample_urls upload_log_def song_A_session L_Nil_iff)

lemma duplicate_after_failed_upload_eq:
  "events_of after_failed_upload (snd (parseTrack spawn_fails_os False after_failed_upload))
     = [Co_await Call_TryGetMediaPropertiesAsync,
        Cout (Duplicate_event
                (ws2s spawn_fails_os (title (fetched_track (song_A (Some readable))))))]"
proof -
  have s1: "after_failed_upload = snd (parseTrack spawn_fails_os False fresh_song_A)"
    by (simp add: after_failed_upload_def)
  show ?thesis
    unfolding s1 after_failed_upload_eq snd_conv
    by (subst parseTrack_duplicate
          [where session = "tidal_session (Inr (song_A (Some readable)))"
             and appId = "L ''TIDAL.exe!App''" and mp = "song_A (Some readable)"])
       (simp_all add: song_A_session events_of_def)
qed

lemma after_nul_output_eq:
  "parseTrack nul_output_os False fresh_song_A =
     (Inr (),
      \<lparr>g_currentSession = Some (tidal_session (Inr (song_A (Some readable)))),
       g_lastTrackProcessed =
         (fetched_track (song_A (Some readable)))\<lparr>coverArtUrl := L ''https://0x0.st/a''\<rparr>,
       g_isParsing = False,
       presence = Some (make_activity nul_output_os
         ((fetched_track (song_A (Some readable)))\<lparr>coverArtUrl := L ''https://0x0.st/a''\<rparr>)),
       files = Map.empty,
       trace =
         [Co_await Call_TryGetMediaPropertiesAsync,
          Co_await Call_OpenReadAsync, Co_await Call_CopyAsync, Co_await Call_LoadAsync,
          Cout (Found_cover_art (ws2s nul_output_os (L ''Song A''))),
          Upload [0x89, 0x50, 0x4E] nul_url,
          Cout (Upload_successful (ws2s nul_output_os (L ''https://0x0.st/a''))),
          UpdateRichPresence (make_activity nul_output_os
            ((fetched_track (song_A (Some readable)))
               \<lparr>coverArtUrl := L ''https://0x0.st/a''\<rparr>))]\<rparr>)"
  unfolding fresh_song_A_def
  by (subst song_A_readable_run [OF sample_streams(7,8,9) _ sample_uploads(3) _ _ refl])
     (simp_all add: sample_urls upload_log_def song_A_session L_Nil_iff)

lemma after_upload_eq:
  "parseTrack plain_os False fresh_song_A =
     (Inr (),
      \<lparr>g_currentSession = Some (tidal_session (Inr (song_A (Some readable)))),
       g_lastTrackProcessed =
         (fetched_track (song_A (Some readable)))\<lparr>coverArtUrl := L ''https://0x0.st/abc.png''\<rparr>,
       g_isParsing = False,
       presence = Some (make_activity plain_os
         ((fetched_track (song_A (Some readable)))\<lparr>coverArtUrl := L ''https://0x0.st/abc.png''\<rparr>)),
       files = Map.empty,
       trace =
         [Co_await Call_TryGetMediaPropertiesAsync,
          Co_await Call_OpenReadAsync, Co_await Call_CopyAsync, Co_await Call_LoadAsync,
          Cout (Found_cover_art (ws2s plain_os (L ''Song A''))),
          Upload [0x89, 0x50, 0x4E] (L ''https://0x0.st/abc.png''),
          Cout (Upload_successful (ws2s plain_os (L ''https://0x0.st/abc.png''))),
          UpdateRichPresence (make_activity plain_os
            ((fetched_track (song_A (Some readable)))
               \<lparr>coverArtUrl := L ''https://0x0.st/abc.png''\<rparr>))]\<rparr>)"
  unfolding fresh_song_A_def
  by (subst song_A_readable_run [OF sample_streams(1,2,3) _ sample_uploads(1) _ _ refl])
     (simp_all add: sample_urls upload_log_def song_A_session L_Nil_iff)

subsection \<open>The flag along the coroutine\<close>

lemma caught_returns:
  "fst (caught os ex s) = Returned (Inr ())" "\<not> g_isParsing (snd (caught os ex s))"
  by (simp_all add: caught_def ParsingGuard_dtor_def Let_def)

lemma reported_returns:
  "fst (reported os track s) = Returned (Inr ())" "\<not> g_isParsing (snd (reported os track s))"
  by (simp_all add: reported_def ParsingGuard_dtor_def Let_def)

lemma resume_flag:
  "g_isParsing (snd (resume os fr s)) =
     (case fst (resume os fr s) of Suspended fr' \<Rightarrow> g_isParsing s | Returned r \<Rightarrow> False)"
  by (cases fr)
     (simp_all add: resume_def caught_returns reported_returns co_await_def Let_def split_beta
        ParsingGuard_dtor_def split: sum.splits option.splits)

lemma start_progress:
  assumes "force \<or> \<not> g_isParsing s"
  shows "fst (start os force s) =
     (case g_currentSession s of
        None \<Rightarrow> Returned (Inr ())
      | Some session \<Rightarrow>
          (case SourceAppUserModelId session of
             Inl ex \<Rightarrow> Returned (Inr ())
           | Inr appId \<Rightarrow>
               if find appId (L ''TIDAL'') = npos then Returned (Inr ())
               else Suspended (At_TryGetMediaPropertiesAsync force session)))"
  using assms
  by (auto simp: start_def caught_returns ParsingGuard_ctor_def Let_def
      split: option.splits sum.splits)

lemma start_flag:
  assumes "force \<or> \<not> g_isParsing s"
  shows "g_isParsing (snd (start os force s)) =
     (case fst (start os force s) of Suspended fr \<Rightarrow> True | Returned r \<Rightarrow> False)"
  using assms
  by (auto simp: start_def caught_returns step_defs Let_def split: option.splits sum.splits)

lemma suspension_states_flag:
  assumes "\<forall>fr. p = Suspended fr \<longrightarrow> g_isParsing s"
  shows "list_all g_isParsing (suspension_states os p s)"
  using assms
proof (induction os p s rule: suspension_states.induct)
  case (1 os r s)
  then show ?case by simp
next
  case (2 os fr s)
  obtain p' s' where step: "resume os fr s = (p', s')"
    by (cases "resume os fr s")
  from 2(2) have "g_isParsing s" by simp
  with resume_flag [of os fr s] step have "\<forall>fr'. p' = Suspended fr' \<longrightarrow> g_isParsing s'"
    by auto
  with 2(1) [OF step [symmetric]] have "list_all g_isParsing (suspension_states os p' s')"
    by simp
  with step \<open>g_isParsing s\<close> show ?case by simp
qed

lemma run_to_return_flag:
  assumes "\<forall>r. p = Returned r \<longrightarrow> \<not> g_isParsing s"
  shows "\<not> g_isParsing (snd (run_to_return os p s))"
  using assms
proof (induction os p s rule: run_to_return.induct)
  case (1 os r s)
  then show ?case by simp
next
  case (2 os fr s)
  obtain p' s' where step: "resume os fr s = (p', s')"
    by (cases "resume os fr s")
  with resume_flag [of os fr s] have "\<forall>r. p' = Returned r \<longrightarrow> \<not> g_isParsing s'"
    by auto
  with 2(1) [OF step [symmetric]] step show ?case by simp
qed

lemma parseTrack_clears_flag:
  assumes "force \<or> \<not> g_isParsing s"
  shows "\<not> g_isParsing (snd (parseTrack os force s))"
proof -
  from start_flag [OF assms, of os]
  have "\<forall>r. fst (start os force s) = Returned r \<longrightarrow> \<not> g_isParsing (snd (start os force s))"
    by auto
  from run_to_return_flag [OF this] show ?thesis
    by (simp add: parseTrack_def split_beta)
qed

lemma parseTrack_keeps_session:
  "g_currentSession (snd (parseTrack os force s)) = g_currentSession s"
proof -
  obtain r s' where run: "parseTrack os force s = (r, s')"
    by (cases "parseTrack os force s")
  from run have "g_currentSession s' = g_currentSession s"
    by (cases rule: parseTrack_cases) simp_all
  with run show ?thesis by simp
qed

lemma start_cached_song_A:
  "start plain_os False cached_song_A =
     (Suspended (At_TryGetMediaPropertiesAsync False (tidal_session (Inr (song_A None)))),
      cached_song_A\<lparr>g_isParsing := True,
                    trace := [Co_await Call_TryGetMediaPropertiesAsync]\<rparr>)"
  by (simp add: start_def cached_song_A_def state_with_def tidal_session_def find_def L_def
      ParsingGuard_ctor_def co_await_def)

section \<open>The claims\<close>

subsection \<open>C1: a duplicate event\<close>

text \<open>
  C1. Take a non-forced run that fetches the metadata of the current session and finds
  the fetched \<open>(title, artist)\<close> equal to the pair of \<open>g_lastTrackProcessed\<close>. The run
  ends before the thumbnail step: the thumbnail is not opened, there is no upload and
  no presence update, and the cache, the presence and the files are as before.
\<close>

theorem duplicate_run_stops_early:
  assumes "\<not> force"
    and "g_currentSession s = Some session"
    and "TryGetMediaPropertiesAsync session = Inr mediaProperties"
    and "title (fetched_track mediaProperties) = title (g_lastTrackProcessed s)"
    and "artist (fetched_track mediaProperties) = artist (g_lastTrackProcessed s)"
    and "parseTrack os force s = (r, s')"
    and "Co_await Call_TryGetMediaPropertiesAsync \<in> set (events_of s s')"
  shows "Co_await Call_OpenReadAsync \<notin> set (events_of s s')
     \<and> uploads_in (events_of s s') = []
     \<and> updates_in (events_of s s') = []
     \<and> g_lastTrackProcessed s' = g_lastTrackProcessed s
     \<and> presence s' = presence s \<and> files s' = files s"
  using assms(6)
proof (cases rule: parseTrack_cases)
  case (duplicate session appId mp)
  then show ?thesis by (simp add: events_of_def)
qed (use assms in \<open>auto simp: events_of_def\<close>)

theorem duplicate_run_stops_early_witness:
  "g_currentSession cached_song_A = Some (tidal_session (Inr (song_A None)))
   \<and> TryGetMediaPropertiesAsync (tidal_session (Inr (song_A None))) = Inr (song_A None)
   \<and> title (fetched_track (song_A None)) = title (g_lastTrackProcessed cached_song_A)
   \<and> artist (fetched_track (song_A None)) = artist (g_lastTrackProcessed cached_song_A)
   \<and> Co_await Call_TryGetMediaPropertiesAsync
       \<in> set (events_of cached_song_A (snd (parseTrack plain_os False cached_song_A)))
   \<and> uploads_in (events_of cached_song_A (snd (parseTrack plain_os False cached_song_A))) = []
   \<and> updates_in (events_of cached_song_A (snd (parseTrack plain_os False cached_song_A))) = []
   \<and> g_lastTrackProcessed (snd (parseTrack plain_os False cached_song_A))
       = g_lastTrackProcessed cached_song_A"
  using duplicate_run_stops_early
    [where force = False and os = plain_os and s = cached_song_A
       and session = "tidal_session (Inr (song_A None))"
       and mediaProperties = "song_A None"
       and r = "fst (parseTrack plain_os False cached_song_A)"
       and s' = "snd (parseTrack plain_os False cached_song_A)"]
  by (simp add: run_defs sample_defs)

subsection \<open>C2: the entry guard\<close>

text \<open>
  C2. A non-forced call made while \<open>g_isParsing\<close> is set returns at once: it writes
  one console line and nothing else happens. There is no presence call and no upload,
  and the flag, the cache, the presence, the files and the session are as before.
\<close>

theorem blocked_run_changes_nothing:
  assumes "\<not> force" and "g_isParsing s"
    and "parseTrack os force s = (r, s')"
  shows "r = Inr ()
     \<and> events_of s s' = [Cout Already_processing]
     \<and> g_isParsing s'
     \<and> g_lastTrackProcessed s' = g_lastTrackProcessed s
     \<and> presence s' = presence s \<and> files s' = files s
     \<and> g_currentSession s' = g_currentSession s"
  using assms by (auto simp: parseTrack_at_once cout_def events_of_def)

theorem blocked_run_changes_nothing_witness:
  "g_isParsing (state_with None (fetched_track (song_A None)) True)
   \<and> events_of (state_with None (fetched_track (song_A None)) True)
        (snd (parseTrack plain_os False (state_with None (fetched_track (song_A None)) True)))
       = [Cout Already_processing]
   \<and> g_isParsing
        (snd (parseTrack plain_os False (state_with None (fetched_track (song_A None)) True)))"
  using blocked_run_changes_nothing
    [where force = False and os = plain_os
       and s = "state_with None (fetched_track (song_A None)) True"
       and r = "fst (parseTrack plain_os False
                  (state_with None (fetched_track (song_A None)) True))"
       and s' = "snd (parseTrack plain_os False
                  (state_with None (fetched_track (song_A None)) True))"]
  by (simp add: state_with_def)

subsection \<open>C3: a forced run\<close>

text \<open>
  C3, as stated, fails: a forced run does not always update the presence. Here the forced
  run fetches the metadata of a TIDAL session, opening the thumbnail throws, the error is
  caught, no presence update is made and the cache is reset to the empty track instead
  of holding the fetched one.
\<close>

theorem forced_run_without_report:
  "updates_in (events_of forced_unreadable (snd (parseTrack plain_os True forced_unreadable)))
     = []
   \<and> g_lastTrackProcessed (snd (parseTrack plain_os True forced_unreadable)) = empty_trackInfo
   \<and> g_lastTrackProcessed (snd (parseTrack plain_os True forced_unreadable))
       \<noteq> fetched_track (song_A (Some unreadable))"
  by (simp add: forced_unreadable_def song_A_unreadable_run events_of_def song_A_session
      empty_trackInfo_def)
     (simp add: state_with_def L_def)

text \<open>
  C3, amended. Take a forced run that fetches the metadata of the current session and in
  which no OS error is caught. Whatever the cache held, the run makes exactly one
  presence update, for the track it then stores in the cache, and that track has the
  fetched title, artist and album.
\<close>

theorem forced_run_reports_and_overwrites:
  assumes "g_currentSession s = Some session"
    and "TryGetMediaPropertiesAsync session = Inr mediaProperties"
    and "parseTrack os True s = (r, s')"
    and "Co_await Call_TryGetMediaPropertiesAsync \<in> set (events_of s s')"
    and "\<forall>m. Cerr (Failed_to_parse m) \<notin> set (events_of s s')"
  shows "updates_in (events_of s s') = [make_activity os (g_lastTrackProcessed s')]
     \<and> presence s' = Some (make_activity os (g_lastTrackProcessed s'))
     \<and> title (g_lastTrackProcessed s') = title (fetched_track mediaProperties)
     \<and> artist (g_lastTrackProcessed s') = artist (fetched_track mediaProperties)
     \<and> album (g_lastTrackProcessed s') = album (fetched_track mediaProperties)"
  using assms(3)
proof (cases rule: parseTrack_cases)
  case (artless session appId mp evs)
  with assms(1,2) show ?thesis
    by (simp add: events_of_def updates_in_append quiet_artless)
next
  case (uploaded session appId mp buffer url fs track)
  with assms(1,2) show ?thesis
    by (simp add: events_of_def updates_in_append quiet_upload_log)
qed (use assms in \<open>auto simp: events_of_def\<close>)

theorem forced_run_reports_and_overwrites_witness:
  "g_lastTrackProcessed replaying_song_A = fetched_track (song_A (Some readable))
   \<and> Co_await Call_TryGetMediaPropertiesAsync
        \<in> set (events_of replaying_song_A (snd (parseTrack plain_os True replaying_song_A)))
   \<and> updates_in (events_of replaying_song_A (snd (parseTrack plain_os True replaying_song_A)))
       = [make_activity plain_os
            (g_lastTrackProcessed (snd (parseTrack plain_os True replaying_song_A)))]
   \<and> title (g_lastTrackProcessed (snd (parseTrack plain_os True replaying_song_A)))
       = title (fetched_track (song_A (Some readable)))"
  using forced_run_reports_and_overwrites
    [where os = plain_os and s = replaying_song_A
       and session = "tidal_session (Inr (song_A (Some readable)))"
       and mediaProperties = "song_A (Some readable)"
       and r = "fst (parseTrack plain_os True replaying_song_A)"
       and s' = "snd (parseTrack plain_os True replaying_song_A)"]
  by (simp add: after_forced_update_eq events_of_def)
     (simp add: replaying_song_A_def state_with_def tidal_session_def)

subsection \<open>C4: the processing flag\<close>

text \<open>
  C4, as stated, fails when a forced call runs while another run is suspended: here a
  non-forced run has passed the guard and waits for the metadata, with the flag set; a
  forced run is started on that state and returns; the flag is then false although the
  first run has not returned, and a further non-forced call passes the guard.
\<close>

theorem forced_run_clears_flag_of_suspended_run:
  "fst (start plain_os False cached_song_A)
     = Suspended (At_TryGetMediaPropertiesAsync False (tidal_session (Inr (song_A None))))
   \<and> g_isParsing (snd (start plain_os False cached_song_A))
   \<and> \<not> g_isParsing
         (snd (parseTrack plain_os True (snd (start plain_os False cached_song_A))))
   \<and> fst (start plain_os False
            (snd (parseTrack plain_os True (snd (start plain_os False cached_song_A)))))
       = Suspended (At_TryGetMediaPropertiesAsync False (tidal_session (Inr (song_A None))))"
proof -
  let ?s1 = "snd (start plain_os False cached_song_A)"
  let ?s2 = "snd (parseTrack plain_os True ?s1)"
  have clear: "\<not> g_isParsing ?s2"
    by (rule parseTrack_clears_flag) simp
  have "g_currentSession ?s2 = Some (tidal_session (Inr (song_A None)))"
    by (simp add: parseTrack_keeps_session start_cached_song_A)
       (simp add: cached_song_A_def state_with_def)
  with clear start_progress [of False ?s2 plain_os]
  have "fst (start plain_os False ?s2)
     = Suspended (At_TryGetMediaPropertiesAsync False (tidal_session (Inr (song_A None))))"
    by (simp add: tidal_session_def find_def L_def)
  with clear show ?thesis
    by (simp add: start_cached_song_A)
qed

text \<open>
  C4, amended. A call that passes the entry guard (it is forced, or the flag is not set)
  sets \<open>g_isParsing\<close> before its first suspension: it is suspended at the metadata fetch
  exactly when there is a session of the target application, and it is suspended with
  the flag set. No resumption writes the flag unless it returns, so in a run taken alone
  the flag is set in every state in which the run is suspended; a forced call that
  returns while the run is suspended clears the flag early. Whenever the call returns,
  at its start or from any resumption and on whatever state, the flag is false: normal
  completion, duplicate event, no session, or a caught \<open>hresult_error\<close>, forced or not.
\<close>

theorem flag_set_while_suspended_alone_and_false_at_return:
  assumes "force \<or> \<not> g_isParsing s"
  shows "fst (start os force s) =
           (case g_currentSession s of
              None \<Rightarrow> Returned (Inr ())
            | Some session \<Rightarrow>
                (case SourceAppUserModelId session of
                   Inl ex \<Rightarrow> Returned (Inr ())
                 | Inr appId \<Rightarrow>
                     if find appId (L ''TIDAL'') = npos then Returned (Inr ())
                     else Suspended (At_TryGetMediaPropertiesAsync force session)))
     \<and> g_isParsing (snd (start os force s)) =
           (case fst (start os force s) of Suspended fr \<Rightarrow> True | Returned r \<Rightarrow> False)
     \<and> g_isParsing (snd (resume os fr s1)) =
           (case fst (resume os fr s1) of
              Suspended fr' \<Rightarrow> g_isParsing s1
            | Returned r \<Rightarrow> False)
     \<and> list_all g_isParsing
           (suspension_states os (fst (start os force s)) (snd (start os force s)))
     \<and> parseTrack os force s
           = run_to_return os (fst (start os force s)) (snd (start os force s))
     \<and> \<not> g_isParsing (snd (parseTrack os force s))"
proof -
  from start_flag [OF assms, of os]
  have "\<forall>fr. fst (start os force s) = Suspended fr \<longrightarrow> g_isParsing (snd (start os force s))"
    by auto
  from suspension_states_flag [OF this]
  have "list_all g_isParsing
          (suspension_states os (fst (start os force s)) (snd (start os force s)))" .
  moreover have "parseTrack os force s
      = run_to_return os (fst (start os force s)) (snd (start os force s))"
    by (simp add: parseTrack_def split_beta)
  ultimately show ?thesis
    using start_progress [OF assms, of os] start_flag [OF assms, of os]
      resume_flag [of os fr s1] parseTrack_clears_flag [OF assms, of os]
    by (intro conjI)
qed

theorem flag_set_while_suspended_alone_and_false_at_return_witness:
  "(False \<or> \<not> g_isParsing cached_song_A)
   \<and> fst (start plain_os False cached_song_A)
       = Suspended (At_TryGetMediaPropertiesAsync False (tidal_session (Inr (song_A None))))
   \<and> g_isParsing (snd (start plain_os False cached_song_A))
   \<and> suspension_states plain_os (fst (start plain_os False cached_song_A))
         (snd (start plain_os False cached_song_A)) \<noteq> []
   \<and> list_all g_isParsing
         (suspension_states plain_os (fst (start plain_os False cached_song_A))
            (snd (start plain_os False cached_song_A)))
   \<and> \<not> g_isParsing (snd (parseTrack plain_os False cached_song_A))"
proof -
  have guard: "False \<or> \<not> g_isParsing cached_song_A"
    by (simp add: cached_song_A_def state_with_def)
  note run = flag_set_while_suspended_alone_and_false_at_return
    [OF guard, where os = plain_os
       and fr = "At_TryGetMediaPropertiesAsync False (tidal_session (Inr (song_A None)))"
       and ?s1.0 = "snd (start plain_os False cached_song_A)"]
  have "fst (start plain_os False cached_song_A)
       = Suspended (At_TryGetMediaPropertiesAsync False (tidal_session (Inr (song_A None))))"
    by (simp add: start_cached_song_A)
  moreover from this have "g_isParsing (snd (start plain_os False cached_song_A))"
    using run [THEN conjunct2, THEN conjunct1] by simp
  moreover have "suspension_states plain_os (fst (start plain_os False cached_song_A))
         (snd (start plain_os False cached_song_A)) \<noteq> []"
    by (simp add: start_cached_song_A)
  moreover note run [THEN conjunct2, THEN conjunct2, THEN conjunct2, THEN conjunct1]
    run [THEN conjunct2, THEN conjunct2, THEN conjunct2, THEN conjunct2, THEN conjunct2]
  ultimately show ?thesis
    using guard by (intro conjI)
qed

subsection \<open>C5: an error of the metadata fetch\<close>

text \<open>
  C5. When the run awaits \<open>TryGetMediaPropertiesAsync\<close> and the call throws an
  \<open>hresult_error\<close>, the run writes the error to \<open>std::cerr\<close>, resets the cache to the
  empty track and returns normally: its events are the fetch and the error line, so
  there is no presence update and no presence clear, and the presence is as before.
\<close>

theorem fetch_error_resets_cache_only:
  assumes "g_currentSession s = Some session"
    and "TryGetMediaPropertiesAsync session = Inl ex"
    and "parseTrack os force s = (r, s')"
    and "Co_await Call_TryGetMediaPropertiesAsync \<in> set (events_of s s')"
  shows "r = Inr ()
     \<and> events_of s s' = [Co_await Call_TryGetMediaPropertiesAsync,
                          Cerr (Failed_to_parse (ws2s os (c_str (message ex))))]
     \<and> g_lastTrackProcessed s' = empty_trackInfo
     \<and> presence s' = presence s
     \<and> \<not> g_isParsing s'"
proof -
  have "r = Inr ()"
    using parseTrack_returns [of os force s] assms(3) by simp
  moreover have "events_of s s' = [Co_await Call_TryGetMediaPropertiesAsync,
                          Cerr (Failed_to_parse (ws2s os (c_str (message ex))))]
     \<and> g_lastTrackProcessed s' = empty_trackInfo
     \<and> presence s' = presence s
     \<and> \<not> g_isParsing s'"
    using assms(3)
    by (cases rule: parseTrack_cases) (use assms in \<open>auto simp: events_of_def\<close>)
  ultimately show ?thesis by simp
qed

theorem fetch_error_resets_cache_only_witness:
  "g_currentSession fetch_fails = Some (tidal_session (Inl access_denied))
   \<and> TryGetMediaPropertiesAsync (tidal_session (Inl access_denied)) = Inl access_denied
   \<and> Co_await Call_TryGetMediaPropertiesAsync
       \<in> set (events_of fetch_fails (snd (parseTrack plain_os False fetch_fails)))
   \<and> fst (parseTrack plain_os False fetch_fails) = Inr ()
   \<and> g_lastTrackProcessed (snd (parseTrack plain_os False fetch_fails)) = empty_trackInfo
   \<and> presence (snd (parseTrack plain_os False fetch_fails)) = presence fetch_fails"
  using fetch_error_resets_cache_only
    [where force = False and os = plain_os and ex = access_denied and s = fetch_fails
       and session = "tidal_session (Inl access_denied)"
       and r = "fst (parseTrack plain_os False fetch_fails)"
       and s' = "snd (parseTrack plain_os False fetch_fails)"]
  by (simp add: run_defs sample_defs)

subsection \<open>C6: the cache after a failed upload\<close>

text \<open>
  C6, as stated, fails: a failed upload does not reset the cache. Here the child process
  cannot be started, the publisher returns an \<open>Error:\<close> string, and the run stores the
  fetched track, which is not the empty track; the next non-forced run on the same
  session is ignored as a duplicate.
\<close>

theorem failed_upload_cache_not_reset:
  "uploads_in (events_of fresh_song_A after_failed_upload)
     = [([0x89, 0x50, 0x4E], L ''Error: CreateProcess failed with code 2'')]
   \<and> g_lastTrackProcessed after_failed_upload = fetched_track (song_A (Some readable))
   \<and> g_lastTrackProcessed after_failed_upload \<noteq> empty_trackInfo
   \<and> events_of after_failed_upload (snd (parseTrack spawn_fails_os False after_failed_upload))
       = [Co_await Call_TryGetMediaPropertiesAsync,
          Cout (Duplicate_event
                  (ws2s spawn_fails_os (title (fetched_track (song_A (Some readable))))))]"
  by (simp add: duplicate_after_failed_upload_eq)
     (simp add: after_failed_upload_def after_failed_upload_eq events_of_def
        fresh_song_A_fields song_A_session empty_trackInfo_def L_Nil_iff)

text \<open>
  C6, amended. If the upload of a run returns an error-prefixed string, the run does not
  reset the cache: it stores the fetched track with an empty \<open>coverArtUrl\<close>, so that an
  immediately following non-forced run on the same session and metadata is ignored as a
  duplicate and leaves cache and presence as they are.
\<close>

theorem failed_upload_keeps_track_cached:
  assumes "g_currentSession s = Some session"
    and "TryGetMediaPropertiesAsync session = Inr mediaProperties"
    and "parseTrack os force s = (r, s')"
    and "Upload binaryData url \<in> set (events_of s s')"
    and "prefix (L ''Error:'') url"
    and "parseTrack os False s' = (r2, s'')"
  shows "g_lastTrackProcessed s' = fetched_track mediaProperties
     \<and> events_of s' s'' =
          [Co_await Call_TryGetMediaPropertiesAsync,
           Cout (Duplicate_event (ws2s os (title (fetched_track mediaProperties))))]
     \<and> g_lastTrackProcessed s'' = g_lastTrackProcessed s'
     \<and> presence s'' = presence s'"
  using assms(3)
proof (cases rule: parseTrack_cases)
  case (uploaded session' appId mp buffer url' fs track)
  from uploaded(10) assms(4) have "url' = url"
    by (auto simp: events_of_def quiet_upload_log)
  with uploaded(9) assms(5) have track: "track = fetched_track mp"
    by (simp add: error_prefixed fetched_track_no_art)
  from uploaded(2,5) assms(1,2) have same: "session' = session" "mp = mediaProperties"
    by simp_all
  have "parseTrack os False s' =
     (Inr (), s'\<lparr>g_isParsing := False,
                 trace := trace s' @ [Co_await Call_TryGetMediaPropertiesAsync,
                    Cout (Duplicate_event (ws2s os (title (fetched_track mp))))]\<rparr>)"
    by (rule parseTrack_duplicate [where session = session' and appId = appId])
       (simp_all add: uploaded track)
  with assms(6) have "s'' = s'\<lparr>g_isParsing := False,
                 trace := trace s' @ [Co_await Call_TryGetMediaPropertiesAsync,
                    Cout (Duplicate_event (ws2s os (title (fetched_track mp))))]\<rparr>"
    by simp
  with same track uploaded(10) \<open>url' = url\<close> show ?thesis
    by (simp add: events_of_def error_prefixed(2) [OF assms(5)])
qed (use assms in \<open>auto simp: events_of_def quiet_raising quiet_artless\<close>)

theorem failed_upload_keeps_track_cached_witness:
  "Upload [0x89, 0x50, 0x4E] (L ''Error: CreateProcess failed with code 2'')
     \<in> set (events_of fresh_song_A after_failed_upload)
   \<and> prefix (L ''Error:'') (L ''Error: CreateProcess failed with code 2'')
   \<and> g_lastTrackProcessed after_failed_upload = fetched_track (song_A (Some readable))
   \<and> g_lastTrackProcessed (snd (parseTrack spawn_fails_os False after_failed_upload))
       = g_lastTrackProcessed after_failed_upload"
  using failed_upload_keeps_track_cached
    [where force = False and os = spawn_fails_os and s = fresh_song_A
       and session = "tidal_session (Inr (song_A (Some readable)))"
       and mediaProperties = "song_A (Some readable)"
       and binaryData = "[0x89, 0x50, 0x4E]"
       and url = "L ''Error: CreateProcess failed with code 2''"
       and r = "fst (parseTrack spawn_fails_os False fresh_song_A)"
       and s' = after_failed_upload
       and ?r2.0 = "fst (parseTrack spawn_fails_os False after_failed_upload)"
       and s'' = "snd (parseTrack spawn_fails_os False after_failed_upload)"]
  by (simp add: after_failed_upload_def after_failed_upload_eq events_of_def
      fresh_song_A_fields song_A_session L_def)

subsection \<open>C7: the run goes on after a failed upload\<close>

text \<open>
  C7. When the upload of a run returns a string that starts with \<open>Error:\<close>, the run
  returns normally, the failure is written to \<open>std::cerr\<close>, exactly one presence update
  is made, for the fetched track and with no large image, and the cache holds the fetched
  track with an empty \<open>coverArtUrl\<close>.
\<close>

theorem failed_upload_reports_without_art:
  assumes "g_currentSession s = Some session"
    and "TryGetMediaPropertiesAsync session = Inr mediaProperties"
    and "parseTrack os force s = (r, s')"
    and "Upload binaryData url \<in> set (events_of s s')"
    and "prefix (L ''Error:'') url"
  shows "r = Inr ()
     \<and> Cerr (Failed_to_upload (ws2s os (c_str url))) \<in> set (events_of s s')
     \<and> updates_in (events_of s s') = [make_activity os (fetched_track mediaProperties)]
     \<and> Assets (make_activity os (fetched_track mediaProperties))
         = Some (make_assets os (fetched_track mediaProperties))
     \<and> LargeImage (make_assets os (fetched_track mediaProperties)) = None
     \<and> presence s' = Some (make_activity os (fetched_track mediaProperties))
     \<and> g_lastTrackProcessed s' = fetched_track mediaProperties
     \<and> coverArtUrl (g_lastTrackProcessed s') = []"
proof -
  have "r = Inr ()"
    using parseTrack_returns [of os force s] assms(3) by simp
  moreover have "Assets (make_activity os (fetched_track mediaProperties))
         = Some (make_assets os (fetched_track mediaProperties))
     \<and> LargeImage (make_assets os (fetched_track mediaProperties)) = None"
    by (simp add: make_activity_def make_assets_def fetched_track_def)
  moreover have "Cerr (Failed_to_upload (ws2s os (c_str url))) \<in> set (events_of s s')
     \<and> updates_in (events_of s s') = [make_activity os (fetched_track mediaProperties)]
     \<and> presence s' = Some (make_activity os (fetched_track mediaProperties))
     \<and> g_lastTrackProcessed s' = fetched_track mediaProperties
     \<and> coverArtUrl (g_lastTrackProcessed s') = []"
    using assms(3)
  proof (cases rule: parseTrack_cases)
    case (uploaded session' appId mp buffer url' fs track)
    from uploaded(10) assms(4) have "url' = url"
      by (auto simp: events_of_def quiet_upload_log)
    with uploaded assms(1,2,5) show ?thesis
      by (simp add: events_of_def error_prefixed fetched_track_no_art)
         (simp add: fetched_track_def)
  qed (use assms in \<open>auto simp: events_of_def quiet_raising quiet_artless\<close>)
  ultimately show ?thesis by (simp add: fetched_track_def)
qed

theorem failed_upload_reports_without_art_witness:
  "Upload [0x89, 0x50, 0x4E] (L ''Error: CreateProcess failed with code 2'')
     \<in> set (events_of fresh_song_A after_failed_upload)
   \<and> prefix (L ''Error:'') (L ''Error: CreateProcess failed with code 2'')
   \<and> presence after_failed_upload
       = Some (make_activity spawn_fails_os (fetched_track (song_A (Some readable))))
   \<and> g_lastTrackProcessed after_failed_upload = fetched_track (song_A (Some readable))"
  using failed_upload_reports_without_art
    [where force = False and os = spawn_fails_os and s = fresh_song_A
       and session = "tidal_session (Inr (song_A (Some readable)))"
       and mediaProperties = "song_A (Some readable)"
       and binaryData = "[0x89, 0x50, 0x4E]"
       and url = "L ''Error: CreateProcess failed with code 2''"
       and r = "fst (parseTrack spawn_fails_os False fresh_song_A)"
       and s' = after_failed_upload]
  by (simp add: after_failed_upload_def after_failed_upload_eq events_of_def
      fresh_song_A_fields song_A_session L_def)

subsection \<open>C8: no session of the target application\<close>

text \<open>
  C8, as stated, fails for a call that the entry guard turns away: with the flag set and
  no session, a non-forced call writes one console line, and neither clears the presence
  nor resets the cache.
\<close>

theorem blocked_run_clears_nothing:
  "g_currentSession busy_without_session = None
   \<and> events_of busy_without_session (snd (parseTrack plain_os False busy_without_session))
       = [Cout Already_processing]
   \<and> presence (snd (parseTrack plain_os False busy_without_session))
       = Some (make_activity plain_os (fetched_track (song_A None)))
   \<and> g_lastTrackProcessed (snd (parseTrack plain_os False busy_without_session))
       = fetched_track (song_A None)
   \<and> fetched_track (song_A None) \<noteq> empty_trackInfo"
  by (simp add: parseTrack_blocked busy_without_session_def state_with_def events_of_def
      song_A_session empty_trackInfo_def L_Nil_iff)

text \<open>
  C8, amended. A call that passes the entry guard (it is forced, or the flag is not set)
  with no current session, or with a session whose application id does not contain
  \<open>TIDAL\<close>, clears the presence, resets the cache to the empty track and returns
  without fetching metadata or a thumbnail and without an upload.
\<close>

theorem no_target_session_clears_presence:
  assumes "force \<or> \<not> g_isParsing s"
    and "g_currentSession s = None
         \<or> (\<exists>session appId. g_currentSession s = Some session
               \<and> SourceAppUserModelId session = Inr appId
               \<and> find appId (L ''TIDAL'') = npos)"
    and "parseTrack os force s = (r, s')"
  shows "ClearRichPresence \<in> set (events_of s s')
     \<and> presence s' = None
     \<and> g_lastTrackProcessed s' = empty_trackInfo
     \<and> Co_await Call_TryGetMediaPropertiesAsync \<notin> set (events_of s s')
     \<and> Co_await Call_OpenReadAsync \<notin> set (events_of s s')
     \<and> uploads_in (events_of s s') = []
     \<and> updates_in (events_of s s') = []
     \<and> files s' = files s
     \<and> \<not> g_isParsing s'"
  using assms(3)
proof (cases rule: parseTrack_cases)
  case no_session
  then show ?thesis by (simp add: events_of_def)
next
  case (other_app session appId)
  then show ?thesis by (simp add: events_of_def)
qed (use assms in auto)

theorem no_target_session_clears_presence_witness:
  "(False \<or> \<not> g_isParsing other_application)
   \<and> g_currentSession other_application = Some spotify_session
   \<and> SourceAppUserModelId spotify_session = Inr (L ''Spotify.exe!App'')
   \<and> find (L ''Spotify.exe!App'') (L ''TIDAL'') = npos
   \<and> ClearRichPresence
        \<in> set (events_of other_application (snd (parseTrack plain_os False other_application)))
   \<and> g_lastTrackProcessed (snd (parseTrack plain_os False other_application))
        = empty_trackInfo"
  using no_target_session_clears_presence
    [where force = False and os = plain_os and s = other_application
       and r = "fst (parseTrack plain_os False other_application)"
       and s' = "snd (parseTrack plain_os False other_application)"]
  by (simp add: other_application_def state_with_def spotify_session_def find_def L_def)

subsection \<open>C9: the scratch file\<close>

text \<open>
  C9. For every byte sequence, the empty one included, and whatever the calls of
  \<open>UploadCoverArtAsync\<close> return, every file that exists when the call returns existed
  before the call, and once the scratch file has been opened its path names no file
  when the call returns. So no file created during the call is left behind, on any path.
\<close>

theorem scratch_file_gone_on_return:
  assumes "UploadCoverArtAsync os binaryData fs = (result, fs')"
  shows "dom fs' \<subseteq> dom fs
     \<and> (\<forall>tempPath. GetTempPathW os = Some tempPath \<and> ofstream_is_open os
           \<longrightarrow> fs' (tempFilePath_of os tempPath) = None)"
  using assms
  by (auto simp: UploadCoverArtAsync_def DeleteFileW_def Let_def
      split: option.splits if_splits)

theorem scratch_file_gone_on_return_witness:
  "GetTempPathW plain_os = Some (L (''C:'' @ [CHR 0x5C] @ ''Temp'' @ [CHR 0x5C]))
   \<and> ofstream_is_open plain_os
   \<and> dom (snd (UploadCoverArtAsync plain_os [] one_file)) \<subseteq> dom one_file
   \<and> snd (UploadCoverArtAsync plain_os [] one_file)
        (tempFilePath_of plain_os (L (''C:'' @ [CHR 0x5C] @ ''Temp'' @ [CHR 0x5C]))) = None"
  using scratch_file_gone_on_return
    [where os = plain_os and binaryData = "[]" and fs = one_file
       and result = "fst (UploadCoverArtAsync plain_os [] one_file)"
       and fs' = "snd (UploadCoverArtAsync plain_os [] one_file)"]
  by (simp add: plain_os_def)

subsection \<open>C10: what is kept of the upload result\<close>

text \<open>
  C10, as stated, fails for a result that holds the code unit 0: the result is not empty
  and contains neither \<open>Error:\<close> nor \<open>Exception:\<close>, yet what is stored as
  \<open>coverArtUrl\<close> is only the part before the code unit 0, since the string is assigned
  from \<open>c_str()\<close>.
\<close>

theorem stored_url_cut_at_nul:
  "uploads_in (events_of fresh_song_A after_nul_output) = [([0x89, 0x50, 0x4E], nul_url)]
   \<and> nul_url \<noteq> []
   \<and> find nul_url (L ''Error:'') = npos
   \<and> find nul_url (L ''Exception:'') = npos
   \<and> coverArtUrl (g_lastTrackProcessed after_nul_output) = L ''https://0x0.st/a''
   \<and> coverArtUrl (g_lastTrackProcessed after_nul_output) \<noteq> nul_url"
  by (simp add: after_nul_output_def after_nul_output_eq events_of_def fresh_song_A_fields)
     (simp add: nul_url_def find_def L_def)

text \<open>
  C10, amended. After an upload with result \<open>url\<close>, the stored \<open>coverArtUrl\<close> is
  \<open>url\<close> up to its first code unit 0 (all of \<open>url\<close> when it has none) exactly when
  \<open>url\<close> is not empty and contains neither \<open>Error:\<close> nor \<open>Exception:\<close> anywhere as
  a substring, and is empty otherwise; the success line is written in exactly that case;
  the failure line is written exactly when \<open>url\<close> is not empty and contains one of the
  two words, so an empty result is no artwork and no logged failure.
\<close>

theorem upload_result_stored_iff_accepted:
  assumes "parseTrack os force s = (r, s')"
    and "Upload binaryData url \<in> set (events_of s s')"
  shows "coverArtUrl (g_lastTrackProcessed s') =
           (if url \<noteq> [] \<and> \<not> sublist (L ''Error:'') url \<and> \<not> sublist (L ''Exception:'') url
            then c_str url else [])
     \<and> ((\<exists>m. Cout (Upload_successful m) \<in> set (events_of s s'))
          \<longleftrightarrow> url \<noteq> [] \<and> \<not> sublist (L ''Error:'') url \<and> \<not> sublist (L ''Exception:'') url)
     \<and> ((\<exists>m. Cerr (Failed_to_upload m) \<in> set (events_of s s'))
          \<longleftrightarrow> url \<noteq> [] \<and> (sublist (L ''Error:'') url \<or> sublist (L ''Exception:'') url))"
  using assms(1)
proof (cases rule: parseTrack_cases)
  case (uploaded session' appId mp buffer url' fs track)
  from uploaded(10) assms(2) have "url' = url"
    by (auto simp: events_of_def quiet_upload_log)
  with uploaded(9,10) show ?thesis
    by (auto simp: events_of_def upload_log_def accepted_def find_npos_iff)
qed (use assms in \<open>auto simp: events_of_def quiet_raising quiet_artless\<close>)

theorem upload_result_stored_iff_accepted_witness:
  "Upload [0x89, 0x50, 0x4E] (L ''https://0x0.st/abc.png'')
     \<in> set (events_of fresh_song_A after_upload)
   \<and> coverArtUrl (g_lastTrackProcessed after_upload) = L ''https://0x0.st/abc.png''"
  using upload_result_stored_iff_accepted
    [where force = False and os = plain_os and s = fresh_song_A
       and binaryData = "[0x89, 0x50, 0x4E]"
       and url = "L ''https://0x0.st/abc.png''"
       and r = "fst (parseTrack plain_os False fresh_song_A)"
       and s' = after_upload]
  by (simp add: after_upload_def after_upload_eq events_of_def fresh_song_A_fields)

end
